theory Spec2Isabelle
  imports Main
begin

section \<open>Data model\<close>

text \<open>
  The repository is a TypeScript event-delivery client: a \<open>TalonClient\<close> on top of one
  of two transports, \<open>WebSocketTransport\<close> and \<open>WebhookTransport\<close>. Everything runs on
  one JavaScript thread, so each callback and each method body is one atomic step, and
  the model is a state-passing one: every method and every browser callback is a
  function from the state before to the state after.

  Numbers that the code uses as counts or as milliseconds are natural numbers here
  (JavaScript's doubles are exact on them far beyond any delay a timer accepts).
\<close>

datatype TransportState = Disconnected | Connecting | Connected | Reconnecting | Error

type_synonym jsError = string

text \<open>What a \<open>catch\<close> clause receives: an \<open>Error\<close> object with its message, or any other value.\<close>

datatype jsThrown = ErrorObject jsError | OtherValue

text \<open>\<open>error instanceof Error ? error : new Error(dflt)\<close>\<close>

fun toError :: "jsThrown \<Rightarrow> jsError \<Rightarrow> jsError" where
  "toError (ErrorObject m) dflt = m"
| "toError OtherValue dflt = dflt"

type_synonym payload = "(string \<times> string) list"

record OutboundMessage =
  om_type :: string
  om_data :: payload
  om_id :: "string option"
  om_timestamp :: "nat option"

record InboundMessage =
  im_type :: string
  im_data :: payload
  im_id :: "string option"
  im_timestamp :: "nat option"

text \<open>
  The argument a callback is invoked with. Transport observers receive the message, the
  state or the error; handlers registered on the client receive \<open>message.data\<close>,
  \<open>{ state }\<close> or \<open>{ error }\<close>.
\<close>

datatype arg =
    Message InboundMessage | State TransportState | Err jsError
  | Data payload | StateEvent TransportState | ErrorEvent jsError

text \<open>
  A function value is known by its identity: \<open>Fn n\<close> is a function supplied by the
  application, \<open>ClientHook\<close> stands for the three bound methods the client's constructor
  registers on its transport (one per registry). A \<open>Set\<close> of functions is a list without
  repetition in insertion order.
\<close>

datatype callee = Fn nat | ClientHook

text \<open>
  An entry of the client's handler sets: the application's function itself (\<open>on\<close>), or
  the closure \<open>wrappedHandler\<close> that \<open>once\<close> creates around it; the first number tells one
  such closure from another.
\<close>

datatype ehandler = Plain nat | Wrapped nat nat

type_synonym call = "callee \<times> arg"

text \<open>
  The application's functions are opaque: all the model knows of a call is that it
  happened and whether it threw, which may depend on the function, on its argument and on
  every call made so far. They do not call back into the client or the transport.
\<close>

datatype fetchOutcome = Response nat string | AbortError | Rejected jsThrown

record env =
  throws :: "nat \<Rightarrow> arg \<Rightarrow> call list \<Rightarrow> bool"
  sendThrows :: "OutboundMessage \<Rightarrow> jsThrown option"
  constructorThrows :: "jsThrown option"
  fetch :: "nat \<Rightarrow> fetchOutcome"

text \<open>
  \<open>sendThrows\<close>: what \<open>JSON.stringify(message); ws.send(payload)\<close> throws, if anything.
  \<open>constructorThrows\<close>: what \<open>new WebSocket(url)\<close> throws, if anything.
  \<open>fetch k\<close>: how the \<open>k\<close>-th HTTP request of a run ends (counted from 0).
\<close>

text \<open>
  The fields the two transport classes have in common, the fields of the client that owns
  the transport (one client per transport), and what can be observed from outside: the
  calls made to application functions and to the client's bound methods, and the lines
  written to the console.
\<close>

record common =
  state :: TransportState
  debug :: bool
  messageHandlers :: "callee list"
  stateHandlers :: "callee list"
  errorHandlers :: "callee list"
  eventHandlers :: "string \<rightharpoonup> ehandler list"
  clientDebug :: bool
  nextWrapper :: nat
  calls :: "call list"
  logs :: "string list"

text \<open>\<open>Set.prototype.add\<close> and \<open>Set.prototype.delete\<close>\<close>

definition setAdd :: "'a \<Rightarrow> 'a list \<Rightarrow> 'a list" where
  "setAdd x xs = (if x \<in> set xs then xs else xs @ [x])"

definition setDelete :: "'a \<Rightarrow> 'a list \<Rightarrow> 'a list" where
  "setDelete x xs = removeAll x xs"

section \<open>Logging\<close>

text \<open>
  \<open>log(message, data)\<close> of a transport prints only in debug mode. The line is the class
  prefix and the message; the \<open>data\<close> argument and interpolated values are left out.
\<close>

definition log :: "string \<Rightarrow> string \<Rightarrow> common \<Rightarrow> common" where
  "log prefix m c = (if debug c then c\<lparr>logs := logs c @ [prefix @ m]\<rparr> else c)"

text \<open>\<open>TalonClient.log\<close>\<close>

definition client_log :: "string \<Rightarrow> common \<Rightarrow> common" where
  "client_log m c =
     (if clientDebug c then c\<lparr>logs := logs c @ [''[TalonClient] '' @ m]\<rparr> else c)"

section \<open>TalonClient: the dispatcher\<close>

text \<open>
  \<open>on(eventType, handler)\<close>; \<open>client_on\<close> is the method with any entry, so that \<open>once\<close> can
  pass its closure. The closure it returns is \<open>unsubscribe eventType handler\<close>.
\<close>

definition client_on :: "string \<Rightarrow> ehandler \<Rightarrow> common \<Rightarrow> common" where
  "client_on eventType handler c =
     (let hs = (case eventHandlers c eventType of None \<Rightarrow> [] | Some hs \<Rightarrow> hs)
      in client_log ''Subscribed to event: ''
           (c\<lparr>eventHandlers := (eventHandlers c)(eventType \<mapsto> setAdd handler hs)\<rparr>))"

definition unsubscribe :: "string \<Rightarrow> ehandler \<Rightarrow> common \<Rightarrow> common" where
  "unsubscribe eventType handler c =
     client_log ''Unsubscribed from event: ''
       (case eventHandlers c eventType of
          None \<Rightarrow> c
        | Some hs \<Rightarrow>
            (let hs' = setDelete handler hs
             in if hs' = [] then c\<lparr>eventHandlers := (eventHandlers c)(eventType := None)\<rparr>
                else c\<lparr>eventHandlers := (eventHandlers c)(eventType \<mapsto> hs')\<rparr>))"

text \<open>\<open>once(eventType, handler)\<close>: a fresh closure is subscribed; it is returned with the state.\<close>

definition client_once :: "string \<Rightarrow> nat \<Rightarrow> common \<Rightarrow> ehandler \<times> common" where
  "client_once eventType handler c =
     (let wrappedHandler = Wrapped (nextWrapper c) handler
      in (wrappedHandler, client_on eventType wrappedHandler (c\<lparr>nextWrapper := Suc (nextWrapper c)\<rparr>)))"

definition client_off :: "string \<Rightarrow> common \<Rightarrow> common" where
  "client_off eventType c =
     client_log ''Removed all handlers for: ''
       (c\<lparr>eventHandlers := (eventHandlers c)(eventType := None)\<rparr>)"

text \<open>
  One call of an entry of a handler set with \<open>data\<close>; the result says whether the call
  threw. The closure of \<open>once\<close> is \<open>handler(data); unsubscribe();\<close>: when \<open>handler\<close>
  throws, \<open>unsubscribe\<close> is not reached.
\<close>

definition callHandler :: "env \<Rightarrow> string \<Rightarrow> arg \<Rightarrow> ehandler \<Rightarrow> common \<Rightarrow> bool \<times> common" where
  "callHandler e eventType d h c =
     (case h of
        Plain n \<Rightarrow> (throws e n d (calls c), c\<lparr>calls := calls c @ [(Fn n, d)]\<rparr>)
      | Wrapped k n \<Rightarrow>
          (let threw = throws e n d (calls c);
               c' = c\<lparr>calls := calls c @ [(Fn n, d)]\<rparr>
           in if threw then (True, c') else (False, unsubscribe eventType (Wrapped k n) c')))"

text \<open>
  \<open>handlers.forEach\<close> with \<open>try/catch\<close> around each call, as in \<open>handleMessage\<close>. The only
  change made to the set while it is visited is that the entry being visited removes
  itself, which does not change which other entries \<open>forEach\<close> visits.
\<close>

fun forEachCaught :: "env \<Rightarrow> string \<Rightarrow> arg \<Rightarrow> ehandler list \<Rightarrow> common \<Rightarrow> common" where
  "forEachCaught e t d [] c = c"
| "forEachCaught e t d (h # hs) c =
     (case callHandler e t d h c of
        (threw, c') \<Rightarrow>
          forEachCaught e t d hs (if threw then client_log ''Error in handler for '' c' else c'))"

text \<open>
  \<open>handlers.forEach\<close> with no \<open>try/catch\<close>, as in \<open>handleStateChange\<close> and \<open>handleError\<close>:
  the first exception ends the loop and leaves the method.
\<close>

fun forEachUncaught :: "env \<Rightarrow> string \<Rightarrow> arg \<Rightarrow> ehandler list \<Rightarrow> common \<Rightarrow> bool \<times> common" where
  "forEachUncaught e t d [] c = (False, c)"
| "forEachUncaught e t d (h # hs) c =
     (case callHandler e t d h c of
        (threw, c') \<Rightarrow> if threw then (True, c') else forEachUncaught e t d hs c')"

definition client_handleMessage :: "env \<Rightarrow> InboundMessage \<Rightarrow> common \<Rightarrow> common" where
  "client_handleMessage e message c =
     (let c1 = client_log ''Received message:'' c
      in case eventHandlers c1 (im_type message) of
           Some hs \<Rightarrow>
             if hs \<noteq> [] then forEachCaught e (im_type message) (Data (im_data message)) hs c1
             else client_log ''No handlers for message type: '' c1
         | None \<Rightarrow> client_log ''No handlers for message type: '' c1)"

definition client_handleStateChange :: "env \<Rightarrow> TransportState \<Rightarrow> common \<Rightarrow> bool \<times> common" where
  "client_handleStateChange e st c =
     (let c1 = client_log ''State changed: '' c
      in case eventHandlers c1 ''_state_change'' of
           Some hs \<Rightarrow> forEachUncaught e ''_state_change'' (StateEvent st) hs c1
         | None \<Rightarrow> (False, c1))"

definition client_handleError :: "env \<Rightarrow> jsError \<Rightarrow> common \<Rightarrow> bool \<times> common" where
  "client_handleError e err c =
     (let c1 = client_log ''Transport error:'' c
      in case eventHandlers c1 ''_error'' of
           Some hs \<Rightarrow> forEachUncaught e ''_error'' (ErrorEvent err) hs c1
         | None \<Rightarrow> (False, c1))"

section \<open>The observer registries of a transport\<close>

text \<open>
  One call of a registered observer. An application function is recorded and throws or
  not; the client's hook is recorded and runs the client's method for that registry.
\<close>

definition callObserver :: "env \<Rightarrow> arg \<Rightarrow> callee \<Rightarrow> common \<Rightarrow> bool \<times> common" where
  "callObserver e a h c =
     (let c' = c\<lparr>calls := calls c @ [(h, a)]\<rparr>
      in case h of
           Fn n \<Rightarrow> (throws e n a (calls c), c')
         | ClientHook \<Rightarrow>
             (case a of
                Message m \<Rightarrow> (False, client_handleMessage e m c')
              | State st \<Rightarrow> client_handleStateChange e st c'
              | Err err \<Rightarrow> client_handleError e err c'
              | _ \<Rightarrow> (False, c')))"

text \<open>
  \<open>handlers.forEach((handler) => { try { handler(x) } catch (error) { this.log(line, error) } })\<close>,
  the loop of \<open>setState\<close>, \<open>emitError\<close> and the transport's \<open>handleMessage\<close>.
\<close>

fun notify :: "env \<Rightarrow> string \<Rightarrow> string \<Rightarrow> arg \<Rightarrow> callee list \<Rightarrow> common \<Rightarrow> common" where
  "notify e prefix line a [] c = c"
| "notify e prefix line a (h # hs) c =
     (case callObserver e a h c of
        (threw, c') \<Rightarrow> notify e prefix line a hs (if threw then log prefix line c' else c'))"

text \<open>\<open>setState\<close> and \<open>emitError\<close>, the same in both transports up to the log prefix.\<close>

definition setState :: "env \<Rightarrow> string \<Rightarrow> TransportState \<Rightarrow> common \<Rightarrow> common" where
  "setState e prefix st c =
     (if state c = st then c
      else notify e prefix ''State handler error:'' (State st) (stateHandlers c) (c\<lparr>state := st\<rparr>))"

definition emitError :: "env \<Rightarrow> string \<Rightarrow> jsError \<Rightarrow> common \<Rightarrow> common" where
  "emitError e prefix err c =
     notify e prefix ''Error handler error:'' (Err err) (errorHandlers c) c"

text \<open>\<open>onMessage\<close>, \<open>onStateChange\<close>, \<open>onError\<close> and the closures they return.\<close>

definition onMessage :: "callee \<Rightarrow> common \<Rightarrow> common" where
  "onMessage h c = c\<lparr>messageHandlers := setAdd h (messageHandlers c)\<rparr>"

definition onStateChange :: "callee \<Rightarrow> common \<Rightarrow> common" where
  "onStateChange h c = c\<lparr>stateHandlers := setAdd h (stateHandlers c)\<rparr>"

definition onError :: "callee \<Rightarrow> common \<Rightarrow> common" where
  "onError h c = c\<lparr>errorHandlers := setAdd h (errorHandlers c)\<rparr>"

definition offMessage :: "callee \<Rightarrow> common \<Rightarrow> common" where
  "offMessage h c = c\<lparr>messageHandlers := setDelete h (messageHandlers c)\<rparr>"

definition offStateChange :: "callee \<Rightarrow> common \<Rightarrow> common" where
  "offStateChange h c = c\<lparr>stateHandlers := setDelete h (stateHandlers c)\<rparr>"

definition offError :: "callee \<Rightarrow> common \<Rightarrow> common" where
  "offError h c = c\<lparr>errorHandlers := setDelete h (errorHandlers c)\<rparr>"

section \<open>WebSocketTransport\<close>

text \<open>
  The transport and the part of the browser it talks to. Every call of \<open>connect\<close> that
  reaches \<open>new WebSocket\<close> creates a socket; sockets are numbered in creation order, and
  \<open>conns\<close> holds, per socket, what the closures of that call captured: the handle of its
  connection-timeout timer, whether its promise is already settled, and whether the call
  came from the reconnect timer (whose \<open>.catch\<close> calls \<open>handleDisconnect\<close>).
  \<open>timers\<close> are the pending timers with handle, callback and delay; \<open>wire\<close> are the
  messages \<open>ws.send\<close> accepted; \<open>closed\<close> are the sockets \<open>close()\<close> was called on.
\<close>

record conn =
  timeoutHandle :: nat
  settled :: bool
  viaReconnect :: bool

datatype timer = ConnectionTimeout nat | ReconnectTimer

record WebSocketTransport =
  common :: common
  ws :: "nat option"
  autoReconnect :: bool
  reconnectDelay :: nat
  maxReconnectAttempts :: nat
  reconnectAttempts :: nat
  reconnectTimeout :: "nat option"
  connectionTimeout :: nat
  messageQueue :: "OutboundMessage list"
  conns :: "conn list"
  timers :: "(nat \<times> timer \<times> nat) list"
  nextTimer :: nat
  wire :: "OutboundMessage list"
  closed :: "nat list"

definition inCommon :: "(common \<Rightarrow> common) \<Rightarrow> WebSocketTransport \<Rightarrow> WebSocketTransport" where
  "inCommon f t = t\<lparr>common := f (common t)\<rparr>"

definition ws_log :: "string \<Rightarrow> WebSocketTransport \<Rightarrow> WebSocketTransport" where
  "ws_log m = inCommon (log ''[WebSocketTransport] '' m)"

definition ws_setState :: "env \<Rightarrow> TransportState \<Rightarrow> WebSocketTransport \<Rightarrow> WebSocketTransport" where
  "ws_setState e st = inCommon (setState e ''[WebSocketTransport] '' st)"

definition ws_emitError :: "env \<Rightarrow> jsError \<Rightarrow> WebSocketTransport \<Rightarrow> WebSocketTransport" where
  "ws_emitError e err = inCommon (emitError e ''[WebSocketTransport] '' err)"

definition setTimeout :: "timer \<Rightarrow> nat \<Rightarrow> WebSocketTransport \<Rightarrow> nat \<times> WebSocketTransport" where
  "setTimeout cb delay t =
     (nextTimer t, t\<lparr>timers := timers t @ [(nextTimer t, cb, delay)], nextTimer := Suc (nextTimer t)\<rparr>)"

definition clearTimeout :: "nat \<Rightarrow> WebSocketTransport \<Rightarrow> WebSocketTransport" where
  "clearTimeout h t = t\<lparr>timers := filter (\<lambda>x. fst x \<noteq> h) (timers t)\<rparr>"

text \<open>\<open>this.ws?.close()\<close> and the \<open>ws.close()\<close> of \<open>disconnect\<close>\<close>

definition closeSocket :: "WebSocketTransport \<Rightarrow> WebSocketTransport" where
  "closeSocket t = (case ws t of None \<Rightarrow> t | Some k \<Rightarrow> t\<lparr>closed := closed t @ [k]\<rparr>)"

text \<open>
  \<open>send\<close>: the result is the error the returned promise is rejected with, if any. The
  body has no \<open>await\<close>, so it runs to its end within the call.
\<close>

definition ws_send :: "env \<Rightarrow> OutboundMessage \<Rightarrow> WebSocketTransport \<Rightarrow> jsError option \<times> WebSocketTransport" where
  "ws_send e message t =
     (if state (common t) \<noteq> Connected \<or> ws t = None then
        (let t1 = ws_log ''Not connected, queueing message'' t
         in (None, t1\<lparr>messageQueue := messageQueue t1 @ [message]\<rparr>))
      else
        (case sendThrows e message of
           None \<Rightarrow> (None, ws_log ''Sent message:'' (t\<lparr>wire := wire t @ [message]\<rparr>))
         | Some x \<Rightarrow>
             (let err = toError x ''Send failed'';
                  t1 = ws_log ''Send error:'' t
              in (Some err, ws_emitError e err t1))))"

text \<open>
  \<open>queue.forEach((message) => this.send(message).catch(...))\<close>: the sends run in order
  within the loop; the \<open>catch\<close> callbacks, which only log, run once the loop is over.
\<close>

fun flushSends :: "env \<Rightarrow> OutboundMessage list \<Rightarrow> WebSocketTransport \<Rightarrow> jsError list \<times> WebSocketTransport" where
  "flushSends e [] t = ([], t)"
| "flushSends e (m # ms) t =
     (case ws_send e m t of
        (r, t') \<Rightarrow>
          (case flushSends e ms t' of
             (errs, t'') \<Rightarrow> ((case r of None \<Rightarrow> [] | Some err \<Rightarrow> [err]) @ errs, t'')))"

definition ws_flushMessageQueue :: "env \<Rightarrow> WebSocketTransport \<Rightarrow> WebSocketTransport" where
  "ws_flushMessageQueue e t =
     (if messageQueue t = [] then t
      else
        (let t1 = ws_log ''Flushing queued messages'' t;
             queue = messageQueue t1;
             t2 = t1\<lparr>messageQueue := []\<rparr>
         in case flushSends e queue t2 of
              (errs, t3) \<Rightarrow> fold (\<lambda>err. ws_log ''Failed to flush message:'') errs t3))"

definition ws_scheduleReconnect :: "WebSocketTransport \<Rightarrow> WebSocketTransport" where
  "ws_scheduleReconnect t =
     (let delay = reconnectDelay t * 2 ^ reconnectAttempts t;
          t1 = ws_log ''Reconnecting'' t
      in case setTimeout ReconnectTimer delay t1 of
           (h, t2) \<Rightarrow> t2\<lparr>reconnectTimeout := Some h\<rparr>)"

definition ws_handleDisconnect :: "env \<Rightarrow> WebSocketTransport \<Rightarrow> WebSocketTransport" where
  "ws_handleDisconnect e t =
     (let t1 = (ws_log ''Disconnected'' t)\<lparr>ws := None\<rparr>
      in if autoReconnect t1 \<and>
            (maxReconnectAttempts t1 = 0 \<or> reconnectAttempts t1 < maxReconnectAttempts t1)
         then ws_scheduleReconnect (ws_setState e Reconnecting t1)
         else ws_setState e Disconnected t1)"

text \<open>
  \<open>connect\<close>; \<open>via\<close> tells whether the call is the one of the reconnect timer, whose
  promise carries \<open>.catch((error) => { this.log('Reconnect failed:', error); this.handleDisconnect(); })\<close>.
  A promise handed to the application is not part of the state: whether it resolves or
  rejects changes nothing in the transport or the client (the \<open>catch\<close> the client's
  constructor attaches to its own \<open>connect()\<close> only writes a log line, which is left out).
\<close>

definition onRejected :: "env \<Rightarrow> bool \<Rightarrow> WebSocketTransport \<Rightarrow> WebSocketTransport" where
  "onRejected e via t = (if via then ws_handleDisconnect e (ws_log ''Reconnect failed:'' t) else t)"

definition ws_connect :: "env \<Rightarrow> bool \<Rightarrow> WebSocketTransport \<Rightarrow> WebSocketTransport" where
  "ws_connect e via t =
     (if state (common t) = Connected \<or> state (common t) = Connecting then
        ws_log ''Already connected or connecting'' t
      else
        (let t1 = ws_log ''Connecting to '' (ws_setState e Connecting t)
         in case constructorThrows e of
              None \<Rightarrow>
                (let k = length (conns t1)
                 in case setTimeout (ConnectionTimeout k) (connectionTimeout t1) (t1\<lparr>ws := Some k\<rparr>) of
                      (h, t2) \<Rightarrow>
                        t2\<lparr>conns := conns t2 @ [\<lparr>timeoutHandle = h, settled = False, viaReconnect = via\<rparr>]\<rparr>)
            | Some x \<Rightarrow>
                (let t2 = ws_setState e Error t1;
                     err = toError x ''Unknown error'';
                     t3 = ws_emitError e err t2
                 in onRejected e via t3)))"

definition ws_disconnect :: "env \<Rightarrow> WebSocketTransport \<Rightarrow> WebSocketTransport" where
  "ws_disconnect e t =
     (let t1 = (ws_log ''Disconnecting'' t)\<lparr>autoReconnect := False\<rparr>;
          t2 = (case reconnectTimeout t1 of
                  Some h \<Rightarrow> (clearTimeout h t1)\<lparr>reconnectTimeout := None\<rparr>
                | None \<Rightarrow> t1);
          t3 = (case ws t2 of Some k \<Rightarrow> (closeSocket t2)\<lparr>ws := None\<rparr> | None \<Rightarrow> t2)
      in ws_setState e Disconnected t3)"

text \<open>The transport's \<open>handleMessage\<close>; \<open>None\<close> is a frame on which \<open>JSON.parse\<close> throws.\<close>

definition ws_handleMessage :: "env \<Rightarrow> InboundMessage option \<Rightarrow> WebSocketTransport \<Rightarrow> WebSocketTransport" where
  "ws_handleMessage e data t =
     (case data of
        Some message \<Rightarrow>
          inCommon (\<lambda>c. notify e ''[WebSocketTransport] '' ''Handler error:'' (Message message)
                           (messageHandlers c) c)
            (ws_log ''Received message:'' t)
      | None \<Rightarrow>
          ws_emitError e ''Invalid message format'' (ws_log ''Failed to parse message:'' t))"

text \<open>
  \<open>resolve\<close> or \<open>reject\<close> of the promise of socket \<open>k\<close>: only the first one counts. The
  result tells whether the promise was still pending.
\<close>

definition settle :: "nat \<Rightarrow> WebSocketTransport \<Rightarrow> bool \<times> WebSocketTransport" where
  "settle k t =
     (if settled (conns t ! k) then (False, t)
      else (True, t\<lparr>conns := (conns t)[k := (conns t ! k)\<lparr>settled := True\<rparr>]\<rparr>))"

text \<open>
  The callbacks \<open>connect\<close> installs on socket \<open>k\<close>, and the firing of a timer. An event
  for a socket that was never created, or of a timer that is not pending, does nothing.
\<close>

definition ws_onopen :: "env \<Rightarrow> nat \<Rightarrow> WebSocketTransport \<Rightarrow> WebSocketTransport" where
  "ws_onopen e k t =
     (if k < length (conns t) then
        (let t1 = clearTimeout (timeoutHandle (conns t ! k)) t;
             t2 = ws_setState e Connected t1;
             t3 = t2\<lparr>reconnectAttempts := 0\<rparr>;
             t4 = ws_log ''Connected'' t3;
             t5 = ws_flushMessageQueue e t4
         in snd (settle k t5))
      else t)"

definition ws_onerror :: "env \<Rightarrow> nat \<Rightarrow> WebSocketTransport \<Rightarrow> WebSocketTransport" where
  "ws_onerror e k t =
     (if k < length (conns t) then
        (let t1 = clearTimeout (timeoutHandle (conns t ! k)) t;
             t2 = ws_log ''Connection error:'' t1;
             t3 = ws_emitError e ''WebSocket connection error'' t2
         in case settle k t3 of
              (pending, t4) \<Rightarrow>
                if pending then onRejected e (viaReconnect (conns t4 ! k)) t4 else t4)
      else t)"

definition ws_onclose :: "env \<Rightarrow> nat \<Rightarrow> WebSocketTransport \<Rightarrow> WebSocketTransport" where
  "ws_onclose e k t =
     (if k < length (conns t) then
        ws_handleDisconnect e (clearTimeout (timeoutHandle (conns t ! k)) t)
      else t)"

definition ws_onmessage :: "env \<Rightarrow> nat \<Rightarrow> InboundMessage option \<Rightarrow> WebSocketTransport \<Rightarrow> WebSocketTransport" where
  "ws_onmessage e k data t = (if k < length (conns t) then ws_handleMessage e data t else t)"

definition fireTimer :: "env \<Rightarrow> nat \<Rightarrow> WebSocketTransport \<Rightarrow> WebSocketTransport" where
  "fireTimer e h t =
     (case find (\<lambda>x. fst x = h) (timers t) of
        None \<Rightarrow> t
      | Some (_, cb, _) \<Rightarrow>
          (let t1 = clearTimeout h t
           in case cb of
                ReconnectTimer \<Rightarrow>
                  ws_connect e True (t1\<lparr>reconnectAttempts := Suc (reconnectAttempts t1)\<rparr>)
              | ConnectionTimeout k \<Rightarrow>
                  (if k < length (conns t1) then
                     (case settle k t1 of
                        (pending, t2) \<Rightarrow>
                          (let t3 = closeSocket t2
                           in if pending then onRejected e (viaReconnect (conns t3 ! k)) t3 else t3))
                   else t1)))"

text \<open>The constructor: every option has its default.\<close>

definition newCommon :: "bool option \<Rightarrow> common" where
  "newCommon dbg =
     \<lparr>state = Disconnected, debug = (case dbg of None \<Rightarrow> False | Some b \<Rightarrow> b),
      messageHandlers = [], stateHandlers = [], errorHandlers = [],
      eventHandlers = Map.empty, clientDebug = False, nextWrapper = 0,
      calls = [], logs = []\<rparr>"

definition new_WebSocketTransport ::
  "bool option \<Rightarrow> nat option \<Rightarrow> nat option \<Rightarrow> nat option \<Rightarrow> bool option \<Rightarrow> WebSocketTransport" where
  "new_WebSocketTransport optAutoReconnect optReconnectDelay optMaxReconnectAttempts
       optConnectionTimeout optDebug =
     \<lparr>common = newCommon optDebug,
      ws = None,
      autoReconnect = (case optAutoReconnect of None \<Rightarrow> True | Some b \<Rightarrow> b),
      reconnectDelay = (case optReconnectDelay of None \<Rightarrow> 1000 | Some n \<Rightarrow> n),
      maxReconnectAttempts = (case optMaxReconnectAttempts of None \<Rightarrow> 0 | Some n \<Rightarrow> n),
      reconnectAttempts = 0,
      reconnectTimeout = None,
      connectionTimeout = (case optConnectionTimeout of None \<Rightarrow> 10000 | Some n \<Rightarrow> n),
      messageQueue = [],
      conns = [], timers = [], nextTimer = 1, wire = [], closed = []\<rparr>"

section \<open>TalonClient on a WebSocketTransport\<close>

text \<open>
  The constructor subscribes the client's three bound methods to the transport and
  connects unless \<open>autoConnect\<close> is \<open>false\<close>.
\<close>

definition new_TalonClient :: "env \<Rightarrow> bool option \<Rightarrow> bool option \<Rightarrow> WebSocketTransport \<Rightarrow> WebSocketTransport" where
  "new_TalonClient e optAutoConnect optDebug transport =
     (let t1 = inCommon (\<lambda>c. c\<lparr>eventHandlers := Map.empty,
                                 clientDebug := (case optDebug of None \<Rightarrow> False | Some b \<Rightarrow> b)\<rparr>) transport;
          t2 = inCommon (onMessage ClientHook) t1;
          t3 = inCommon (onStateChange ClientHook) t2;
          t4 = inCommon (onError ClientHook) t3
      in if optAutoConnect \<noteq> Some False then ws_connect e False t4 else t4)"

definition client_connect :: "env \<Rightarrow> WebSocketTransport \<Rightarrow> WebSocketTransport" where
  "client_connect e t = ws_connect e False t"

definition client_cleanup :: "WebSocketTransport \<Rightarrow> WebSocketTransport" where
  "client_cleanup t =
     (let t1 = inCommon (offMessage ClientHook) t;
          t2 = inCommon (offStateChange ClientHook) t1;
          t3 = inCommon (offError ClientHook) t2
      in inCommon (\<lambda>c. c\<lparr>eventHandlers := Map.empty\<rparr>) t3)"

definition client_disconnect :: "env \<Rightarrow> WebSocketTransport \<Rightarrow> WebSocketTransport" where
  "client_disconnect e t = client_cleanup (ws_disconnect e t)"

text \<open>Decimal digits of a number, as a template string prints it.\<close>

definition digit :: "nat \<Rightarrow> char" where
  "digit d = (if d < 10 then ''0123456789'' ! d else CHR ''?'')"

function showNat :: "nat \<Rightarrow> string" where
  "showNat n = (if n < 10 then [digit n] else showNat (n div 10) @ [digit (n mod 10)])"
  by pat_completeness auto
termination
  by (relation "measure id") auto

text \<open>
  \<open>generateId\<close>: \<open>now\<close> is what \<open>Date.now()\<close> returns and \<open>suffix\<close> is
  \<open>Math.random().toString(36).substr(2, 9)\<close>.
\<close>

definition generateId :: "nat \<Rightarrow> string \<Rightarrow> string" where
  "generateId now suffix = ''msg_'' @ showNat now @ ''_'' @ suffix"

text \<open>
  \<open>send(event)\<close>: the object literal reads the clock twice, first within \<open>generateId\<close>
  (\<open>now1\<close>), then for \<open>timestamp\<close> (\<open>now2\<close>).
\<close>

definition client_message :: "payload \<Rightarrow> nat \<Rightarrow> string \<Rightarrow> nat \<Rightarrow> OutboundMessage" where
  "client_message event now1 suffix now2 =
     \<lparr>om_type = ''event'', om_data = event,
      om_id = Some (generateId now1 suffix), om_timestamp = Some now2\<rparr>"

definition client_send ::
  "env \<Rightarrow> payload \<Rightarrow> nat \<Rightarrow> string \<Rightarrow> nat \<Rightarrow> WebSocketTransport \<Rightarrow> jsError option \<times> WebSocketTransport" where
  "client_send e event now1 suffix now2 t =
     (let message = client_message event now1 suffix now2
      in ws_send e message (inCommon (client_log ''Sending message:'') t))"

text \<open>
  Everything that can happen to a client on its socket transport once both exist: a call
  of a public method of the client or of the transport, a call of a closure one of them
  returned, a socket event, a timer that fires.
\<close>

datatype action =
    ClientConnect | ClientDisconnect | ClientSend payload nat string nat
  | ClientOn string nat | ClientOnce string nat | ClientOff string
  | Unsubscribe string ehandler
  | TransportConnect | TransportDisconnect | TransportSend OutboundMessage
  | OnMessage nat | OnStateChange nat | OnError nat
  | OffMessage nat | OffStateChange nat | OffError nat
  | SocketOpen nat | SocketError nat | SocketClose nat
  | SocketMessage nat "InboundMessage option"
  | TimerFires nat

fun step :: "env \<Rightarrow> action \<Rightarrow> WebSocketTransport \<Rightarrow> WebSocketTransport" where
  "step e ClientConnect t = client_connect e t"
| "step e ClientDisconnect t = client_disconnect e t"
| "step e (ClientSend event now1 suffix now2) t = snd (client_send e event now1 suffix now2 t)"
| "step e (ClientOn eventType h) t = inCommon (client_on eventType (Plain h)) t"
| "step e (ClientOnce eventType h) t = inCommon (\<lambda>c. snd (client_once eventType h c)) t"
| "step e (ClientOff eventType) t = inCommon (client_off eventType) t"
| "step e (Unsubscribe eventType h) t = inCommon (unsubscribe eventType h) t"
| "step e TransportConnect t = ws_connect e False t"
| "step e TransportDisconnect t = ws_disconnect e t"
| "step e (TransportSend message) t = snd (ws_send e message t)"
| "step e (OnMessage h) t = inCommon (onMessage (Fn h)) t"
| "step e (OnStateChange h) t = inCommon (onStateChange (Fn h)) t"
| "step e (OnError h) t = inCommon (onError (Fn h)) t"
| "step e (OffMessage h) t = inCommon (offMessage (Fn h)) t"
| "step e (OffStateChange h) t = inCommon (offStateChange (Fn h)) t"
| "step e (OffError h) t = inCommon (offError (Fn h)) t"
| "step e (SocketOpen k) t = ws_onopen e k t"
| "step e (SocketError k) t = ws_onerror e k t"
| "step e (SocketClose k) t = ws_onclose e k t"
| "step e (SocketMessage k data) t = ws_onmessage e k data t"
| "step e (TimerFires h) t = fireTimer e h t"

fun run :: "env \<Rightarrow> action list \<Rightarrow> WebSocketTransport \<Rightarrow> WebSocketTransport" where
  "run e [] t = t"
| "run e (a # as) t = run e as (step e a t)"

section \<open>Reading the record of calls\<close>

text \<open>
  The arguments only the client's dispatcher passes: what \<open>handleMessage\<close>,
  \<open>handleStateChange\<close> and \<open>handleError\<close> hand to the handlers of \<open>on\<close> and \<open>once\<close>.
\<close>

fun eventArg :: "arg \<Rightarrow> bool" where
  "eventArg (Data d) = True"
| "eventArg (StateEvent st) = True"
| "eventArg (ErrorEvent err) = True"
| "eventArg a = False"

text \<open>The calls a transport made to the observers in its registries, in order.\<close>

definition observerCalls :: "call list \<Rightarrow> call list" where
  "observerCalls cs = filter (\<lambda>x. \<not> eventArg (snd x)) cs"

text \<open>The calls that went to the client: to one of its bound methods or, from there, to a handler.\<close>

definition clientCalls :: "call list \<Rightarrow> call list" where
  "clientCalls cs = filter (\<lambda>x. fst x = ClientHook \<or> eventArg (snd x)) cs"

text \<open>The client's bound methods are in none of the transport's registries.\<close>

definition detached :: "common \<Rightarrow> bool" where
  "detached c \<longleftrightarrow>
     ClientHook \<notin> set (messageHandlers c) \<and> ClientHook \<notin> set (stateHandlers c) \<and>
     ClientHook \<notin> set (errorHandlers c)"

section \<open>WebhookTransport\<close>

text \<open>
  \<open>fetchCalls\<close> are the bodies of the requests made so far, \<open>sleeps\<close> the delays awaited
  between attempts.
\<close>

record WebhookTransport =
  wh_common :: common
  retry :: bool
  maxRetries :: nat
  retryDelay :: nat
  fetchCalls :: "OutboundMessage list"
  sleeps :: "nat list"

definition new_WebhookTransport ::
  "bool option \<Rightarrow> nat option \<Rightarrow> nat option \<Rightarrow> bool option \<Rightarrow> WebhookTransport" where
  "new_WebhookTransport optRetry optMaxRetries optRetryDelay optDebug =
     \<lparr>wh_common = newCommon optDebug,
      retry = (case optRetry of None \<Rightarrow> False | Some b \<Rightarrow> b),
      maxRetries = (case optMaxRetries of None \<Rightarrow> 3 | Some n \<Rightarrow> n),
      retryDelay = (case optRetryDelay of None \<Rightarrow> 1000 | Some n \<Rightarrow> n),
      fetchCalls = [], sleeps = []\<rparr>"

definition wh_inCommon :: "(common \<Rightarrow> common) \<Rightarrow> WebhookTransport \<Rightarrow> WebhookTransport" where
  "wh_inCommon f t = t\<lparr>wh_common := f (wh_common t)\<rparr>"

definition wh_log :: "string \<Rightarrow> WebhookTransport \<Rightarrow> WebhookTransport" where
  "wh_log m = wh_inCommon (log ''[WebhookTransport] '' m)"

definition wh_setState :: "env \<Rightarrow> TransportState \<Rightarrow> WebhookTransport \<Rightarrow> WebhookTransport" where
  "wh_setState e st = wh_inCommon (setState e ''[WebhookTransport] '' st)"

definition wh_emitError :: "env \<Rightarrow> jsError \<Rightarrow> WebhookTransport \<Rightarrow> WebhookTransport" where
  "wh_emitError e err = wh_inCommon (emitError e ''[WebhookTransport] '' err)"

definition wh_connect :: "env \<Rightarrow> WebhookTransport \<Rightarrow> WebhookTransport" where
  "wh_connect e t = wh_setState e Connected (wh_log ''Webhook transport ready'' t)"

definition wh_disconnect :: "env \<Rightarrow> WebhookTransport \<Rightarrow> WebhookTransport" where
  "wh_disconnect e t = wh_setState e Disconnected (wh_log ''Disconnecting webhook transport'' t)"

text \<open>\<open>response.ok\<close>\<close>

definition ok :: "nat \<Rightarrow> bool" where
  "ok status = (200 \<le> status \<and> status \<le> 299)"

text \<open>
  How one request ends for \<open>sendRequest\<close>: \<open>None\<close> when it returns, the error it throws
  otherwise. The abort of the timeout arrives as an \<open>AbortError\<close>.
\<close>

definition requestError :: "fetchOutcome \<Rightarrow> jsError option" where
  "requestError r =
     (case r of
        Response status statusText \<Rightarrow>
          if ok status then None else Some (''HTTP '' @ showNat status @ '': '' @ statusText)
      | AbortError \<Rightarrow> Some ''Request timeout''
      | Rejected (ErrorObject m) \<Rightarrow> Some m
      | Rejected OtherValue \<Rightarrow> Some ''Request failed'')"

definition wh_sendRequest :: "env \<Rightarrow> OutboundMessage \<Rightarrow> WebhookTransport \<Rightarrow> jsError option \<times> WebhookTransport" where
  "wh_sendRequest e message t =
     (let r = fetch e (length (fetchCalls t));
          t1 = t\<lparr>fetchCalls := fetchCalls t @ [message]\<rparr>
      in case requestError r of
           None \<Rightarrow> (None, wh_log ''Request successful: '' t1)
         | Some err \<Rightarrow> (Some err, t1))"

text \<open>
  The \<open>for\<close> loop of \<open>send\<close>. The result tells whether the loop was left by \<open>return\<close>,
  and gives \<open>lastError\<close>.
\<close>

function wh_sendLoop ::
  "env \<Rightarrow> OutboundMessage \<Rightarrow> nat \<Rightarrow> nat \<Rightarrow> jsError option \<Rightarrow> WebhookTransport
     \<Rightarrow> bool \<times> jsError option \<times> WebhookTransport" where
  "wh_sendLoop e message attempts attempt lastError t =
     (if attempt < attempts then
        (case wh_sendRequest e message t of
           (None, t1) \<Rightarrow> (True, lastError, wh_log ''Sent message'' t1)
         | (Some err, t1) \<Rightarrow>
             (let t2 = wh_log ''Send failed'' t1;
                  t3 = (if attempt < attempts - 1
                        then t2\<lparr>sleeps := sleeps t2 @ [retryDelay t2 * 2 ^ attempt]\<rparr>
                        else t2)
              in wh_sendLoop e message attempts (Suc attempt) (Some err) t3))
      else (False, lastError, t))"
  by pat_completeness auto
termination
  by (relation "measure (\<lambda>(e, message, attempts, attempt, lastError, t). attempts - attempt)") auto

text \<open>
  The state with which the loop of \<open>send\<close> enters its next round after a request that
  failed: the request is recorded, the failure logged and, unless this was the last
  attempt, the backoff delay awaited.
\<close>

definition afterFailure :: "OutboundMessage \<Rightarrow> nat \<Rightarrow> nat \<Rightarrow> WebhookTransport \<Rightarrow> WebhookTransport" where
  "afterFailure m attempts attempt t =
     (let t2 = wh_log ''Send failed'' (t\<lparr>fetchCalls := fetchCalls t @ [m]\<rparr>)
      in if attempt < attempts - 1
         then t2\<lparr>sleeps := sleeps t2 @ [retryDelay t2 * 2 ^ attempt]\<rparr> else t2)"

text \<open>\<open>const attempts = this.retry ? this.maxRetries + 1 : 1\<close>\<close>

definition wh_attempts :: "WebhookTransport \<Rightarrow> nat" where
  "wh_attempts t = (if retry t then maxRetries t + 1 else 1)"

definition wh_send :: "env \<Rightarrow> OutboundMessage \<Rightarrow> WebhookTransport \<Rightarrow> jsError option \<times> WebhookTransport" where
  "wh_send e message t =
     (if state (wh_common t) \<noteq> Connected then (Some ''Transport not connected'', t)
      else
        (let attempts = wh_attempts t
         in case wh_sendLoop e message attempts 0 None t of
              (True, lastError, t1) \<Rightarrow> (None, t1)
            | (False, Some lastError, t1) \<Rightarrow> (Some lastError, wh_emitError e lastError t1)
            | (False, None, t1) \<Rightarrow> (None, t1)))"



definition errorCalls :: "callee list \<Rightarrow> jsError list \<Rightarrow> call list" where
  "errorCalls hs errs = concat (map (\<lambda>err. map (\<lambda>h. (h, Err err)) hs) errs)"

text \<open>How often the console shows the line the queue flush writes for an entry that failed.\<close>

definition flushLine :: string where
  "flushLine = ''[WebSocketTransport] Failed to flush message:''"

definition flushLogged :: "common \<Rightarrow> nat" where
  "flushLogged c = count_list (logs c) flushLine"

section \<open>Concrete inputs\<close>

text \<open>
  An environment in which the application's function 1 always throws, a message of type
  \<open>bad\<close> cannot be serialised, and the first two HTTP requests are answered with status 500.
\<close>

definition env1 :: env where
  "env1 = \<lparr>throws = (\<lambda>n a cs. n = 1),
           sendThrows = (\<lambda>m. if om_type m = ''bad'' then Some (ErrorObject ''cyclic'') else None),
           constructorThrows = None,
           fetch = (\<lambda>k. if k < 2 then Response 500 ''Error'' else Response 200 ''OK'')\<rparr>"


text \<open>
  A socket transport in debug mode on which an error observer was registered and
  a message that cannot be serialised was sent, and then \<open>connect\<close> was called: the
  message waits in the queue and socket 0 is connecting.
\<close>

definition badMessage :: OutboundMessage where
  "badMessage = \<lparr>om_type = ''bad'', om_data = [], om_id = None, om_timestamp = None\<rparr>"

definition goodMessage :: OutboundMessage where
  "goodMessage = \<lparr>om_type = ''event'', om_data = [], om_id = None, om_timestamp = None\<rparr>"

definition t4 :: WebSocketTransport where
  "t4 = run env1 [OnError 5, TransportSend goodMessage, TransportSend badMessage, TransportConnect]
          (new_WebSocketTransport None None None None (Some True))"

text \<open>
  A lost connection followed by two reconnect attempts that fail, each with the socket's
  \<open>error\<close> event and then its \<open>close\<close> event, as a browser reports a connection that cannot
  be made. After the first failure two reconnect timers are pending (handles 4 and 5);
  both fire. \<open>t3w\<close> is a transport with default options after the first failure, \<open>t3x\<close>
  the same after the second, \<open>t3y\<close> is as \<open>t3x\<close> with \<open>maxReconnectAttempts: 3\<close>.
\<close>

definition firstFailure :: "action list" where
  "firstFailure = [TransportConnect, SocketOpen 0, SocketClose 0, TimerFires 2,
                   SocketError 1, SocketClose 1]"

definition secondFailure :: "action list" where
  "secondFailure = [TimerFires 4, TimerFires 5, SocketError 2, SocketClose 2]"

definition t3w :: WebSocketTransport where
  "t3w = run env1 firstFailure (new_WebSocketTransport None None None None None)"

definition t3x :: WebSocketTransport where
  "t3x = run env1 secondFailure t3w"

definition t3y :: WebSocketTransport where
  "t3y = run env1 secondFailure
           (run env1 firstFailure (new_WebSocketTransport None None (Some 3) None None))"


text \<open>
  Webhook transports with one error observer: \<open>u5\<close> retries up to 3 times and is
  connected, \<open>u5n\<close> has the default options and is connected, \<open>u5d\<close> was never connected.
\<close>

definition u5 :: WebhookTransport where
  "u5 = wh_connect env1 (wh_inCommon (onError (Fn 7))
          (new_WebhookTransport (Some True) (Some 3) (Some 10) None))"

definition u5n :: WebhookTransport where
  "u5n = wh_connect env1 (wh_inCommon (onError (Fn 7))
           (new_WebhookTransport None None None None))"

definition u5d :: WebhookTransport where
  "u5d = wh_inCommon (onError (Fn 7)) (new_WebhookTransport None None None None)"

text \<open>
  A client created with \<open>autoConnect: false\<close> on a socket transport with default
  options (\<open>tc\<close>), and the same after \<open>connect()\<close> and the socket's \<open>open\<close> event (\<open>tc9\<close>).
\<close>

definition tc :: WebSocketTransport where
  "tc = new_TalonClient env1 (Some False) None (new_WebSocketTransport None None None None None)"

definition tc9 :: WebSocketTransport where
  "tc9 = run env1 [ClientConnect, SocketOpen 0] tc"

definition purchase :: payload where
  "purchase = [(''event'', ''purchase''), (''order_id'', ''123'')]"

text \<open>Two inbound messages of type \<open>test_event\<close>.\<close>

definition inbound :: "string \<Rightarrow> InboundMessage" where
  "inbound n = \<lparr>im_type = ''test_event'', im_data = [(''count'', n)], im_id = None,
                 im_timestamp = None\<rparr>"

text \<open>
  A socket transport with default options whose connection was lost, whose first
  reconnect attempt failed with the socket's \<open>error\<close> event followed by its \<open>close\<close>
  event, and on which \<open>disconnect()\<close> was called then.
\<close>

definition t7 :: WebSocketTransport where
  "t7 = run env1 [TransportConnect, SocketOpen 0, SocketClose 0, TimerFires 2,
                  SocketError 1, SocketClose 1, TransportDisconnect]
          (new_WebSocketTransport None None None None None)"

text \<open>The connected client with a handler for \<open>test_event\<close> and one for \<open>_state_change\<close>.\<close>

definition tc10 :: WebSocketTransport where
  "tc10 = run env1 [ClientOn ''test_event'' 2, ClientOn ''_state_change'' 2] tc9"

text \<open>What is done after the disconnect: subscribe again, connect, receive a message.\<close>

definition after10 :: "action list" where
  "after10 = [ClientOn ''test_event'' 2, ClientOn ''_state_change'' 2, OnStateChange 3,
              ClientConnect, SocketOpen 1, SocketMessage 1 (Some (inbound ''1''))]"

section \<open>What the dispatcher and the registries leave unchanged\<close>

declare showNat.simps [simp del]

declare wh_sendLoop.simps [simp del]

lemma observerCalls_append [simp]: "observerCalls (xs @ ys) = observerCalls xs @ observerCalls ys"
  by (simp add: observerCalls_def)

lemma observerCalls_single [simp]:
  "observerCalls [(h, a)] = (if eventArg a then [] else [(h, a)])"
  by (simp add: observerCalls_def)

lemma log_frame [simp]:
  "state (log p m c) = state c" "debug (log p m c) = debug c"
  "clientDebug (log p m c) = clientDebug c" "messageHandlers (log p m c) = messageHandlers c"
  "stateHandlers (log p m c) = stateHandlers c" "errorHandlers (log p m c) = errorHandlers c"
  "calls (log p m c) = calls c" "eventHandlers (log p m c) = eventHandlers c"
  "nextWrapper (log p m c) = nextWrapper c"
  by (simp_all add: log_def)

lemma client_log_frame [simp]:
  "state (client_log m c) = state c" "debug (client_log m c) = debug c"
  "clientDebug (client_log m c) = clientDebug c" "messageHandlers (client_log m c) = messageHandlers c"
  "stateHandlers (client_log m c) = stateHandlers c" "errorHandlers (client_log m c) = errorHandlers c"
  "calls (client_log m c) = calls c" "eventHandlers (client_log m c) = eventHandlers c"
  "nextWrapper (client_log m c) = nextWrapper c"
  by (simp_all add: client_log_def)

lemma unsubscribe_frame [simp]:
  "state (unsubscribe t h c) = state c" "debug (unsubscribe t h c) = debug c"
  "clientDebug (unsubscribe t h c) = clientDebug c"
  "messageHandlers (unsubscribe t h c) = messageHandlers c"
  "stateHandlers (unsubscribe t h c) = stateHandlers c"
  "errorHandlers (unsubscribe t h c) = errorHandlers c"
  "calls (unsubscribe t h c) = calls c"
  "nextWrapper (unsubscribe t h c) = nextWrapper c"
  by (simp_all add: unsubscribe_def Let_def split: option.splits)

lemma callHandler_frame [simp]:
  "state (snd (callHandler e t d h c)) = state c"
  "debug (snd (callHandler e t d h c)) = debug c"
  "clientDebug (snd (callHandler e t d h c)) = clientDebug c"
  "messageHandlers (snd (callHandler e t d h c)) = messageHandlers c"
  "stateHandlers (snd (callHandler e t d h c)) = stateHandlers c"
  "errorHandlers (snd (callHandler e t d h c)) = errorHandlers c"
  "nextWrapper (snd (callHandler e t d h c)) = nextWrapper c"
  by (cases h; simp add: callHandler_def Let_def)+

lemma observerCalls_callHandler [simp]:
  "eventArg d \<Longrightarrow> observerCalls (calls (snd (callHandler e t d h c))) = observerCalls (calls c)"
  by (cases h) (simp_all add: callHandler_def Let_def)

lemma forEachCaught_frame [simp]:
  "state (forEachCaught e t d hs c) = state c"
  "debug (forEachCaught e t d hs c) = debug c"
  "clientDebug (forEachCaught e t d hs c) = clientDebug c"
  "messageHandlers (forEachCaught e t d hs c) = messageHandlers c"
  "stateHandlers (forEachCaught e t d hs c) = stateHandlers c"
  "errorHandlers (forEachCaught e t d hs c) = errorHandlers c"
  "nextWrapper (forEachCaught e t d hs c) = nextWrapper c"
  by (induction hs arbitrary: c; simp add: case_prod_beta)+

lemma observerCalls_forEachCaught [simp]:
  "eventArg d \<Longrightarrow> observerCalls (calls (forEachCaught e t d hs c)) = observerCalls (calls c)"
  by (induction hs arbitrary: c) (simp_all add: case_prod_beta)

lemma forEachUncaught_frame [simp]:
  "state (snd (forEachUncaught e t d hs c)) = state c"
  "debug (snd (forEachUncaught e t d hs c)) = debug c"
  "clientDebug (snd (forEachUncaught e t d hs c)) = clientDebug c"
  "messageHandlers (snd (forEachUncaught e t d hs c)) = messageHandlers c"
  "stateHandlers (snd (forEachUncaught e t d hs c)) = stateHandlers c"
  "errorHandlers (snd (forEachUncaught e t d hs c)) = errorHandlers c"
  "nextWrapper (snd (forEachUncaught e t d hs c)) = nextWrapper c"
  by (induction hs arbitrary: c; simp add: case_prod_beta)+

lemma observerCalls_forEachUncaught [simp]:
  "eventArg d \<Longrightarrow>
   observerCalls (calls (snd (forEachUncaught e t d hs c))) = observerCalls (calls c)"
  by (induction hs arbitrary: c) (simp_all add: case_prod_beta)

lemma client_handleMessage_frame [simp]:
  "state (client_handleMessage e m c) = state c"
  "debug (client_handleMessage e m c) = debug c"
  "clientDebug (client_handleMessage e m c) = clientDebug c"
  "messageHandlers (client_handleMessage e m c) = messageHandlers c"
  "stateHandlers (client_handleMessage e m c) = stateHandlers c"
  "errorHandlers (client_handleMessage e m c) = errorHandlers c"
  "nextWrapper (client_handleMessage e m c) = nextWrapper c"
  "observerCalls (calls (client_handleMessage e m c)) = observerCalls (calls c)"
  by (simp_all add: client_handleMessage_def Let_def split: option.splits)

lemma client_handleStateChange_frame [simp]:
  "state (snd (client_handleStateChange e st c)) = state c"
  "debug (snd (client_handleStateChange e st c)) = debug c"
  "clientDebug (snd (client_handleStateChange e st c)) = clientDebug c"
  "messageHandlers (snd (client_handleStateChange e st c)) = messageHandlers c"
  "stateHandlers (snd (client_handleStateChange e st c)) = stateHandlers c"
  "errorHandlers (snd (client_handleStateChange e st c)) = errorHandlers c"
  "nextWrapper (snd (client_handleStateChange e st c)) = nextWrapper c"
  "observerCalls (calls (snd (client_handleStateChange e st c))) = observerCalls (calls c)"
  by (simp_all add: client_handleStateChange_def Let_def split: option.splits)

lemma client_handleError_frame [simp]:
  "state (snd (client_handleError e err c)) = state c"
  "debug (snd (client_handleError e err c)) = debug c"
  "clientDebug (snd (client_handleError e err c)) = clientDebug c"
  "messageHandlers (snd (client_handleError e err c)) = messageHandlers c"
  "stateHandlers (snd (client_handleError e err c)) = stateHandlers c"
  "errorHandlers (snd (client_handleError e err c)) = errorHandlers c"
  "nextWrapper (snd (client_handleError e err c)) = nextWrapper c"
  "observerCalls (calls (snd (client_handleError e err c))) = observerCalls (calls c)"
  by (simp_all add: client_handleError_def Let_def split: option.splits)

lemma callObserver_frame [simp]:
  "state (snd (callObserver e a h c)) = state c"
  "debug (snd (callObserver e a h c)) = debug c"
  "clientDebug (snd (callObserver e a h c)) = clientDebug c"
  "messageHandlers (snd (callObserver e a h c)) = messageHandlers c"
  "stateHandlers (snd (callObserver e a h c)) = stateHandlers c"
  "errorHandlers (snd (callObserver e a h c)) = errorHandlers c"
  "nextWrapper (snd (callObserver e a h c)) = nextWrapper c"
  by (cases h; cases a; simp add: callObserver_def Let_def)+

lemma observerCalls_callObserver [simp]:
  "\<not> eventArg a \<Longrightarrow>
   observerCalls (calls (snd (callObserver e a h c))) = observerCalls (calls c) @ [(h, a)]"
  by (cases h; cases a; simp add: callObserver_def Let_def)

lemma notify_frame [simp]:
  "state (notify e p l a hs c) = state c"
  "debug (notify e p l a hs c) = debug c"
  "clientDebug (notify e p l a hs c) = clientDebug c"
  "messageHandlers (notify e p l a hs c) = messageHandlers c"
  "stateHandlers (notify e p l a hs c) = stateHandlers c"
  "errorHandlers (notify e p l a hs c) = errorHandlers c"
  "nextWrapper (notify e p l a hs c) = nextWrapper c"
  by (induction hs arbitrary: c; simp add: case_prod_beta)+

lemma observerCalls_notify [simp]:
  "\<not> eventArg a \<Longrightarrow>
   observerCalls (calls (notify e p l a hs c)) = observerCalls (calls c) @ map (\<lambda>h. (h, a)) hs"
  by (induction hs arbitrary: c) (simp_all add: case_prod_beta)

lemma setState_frame [simp]:
  "state (setState e p st c) = st"
  "debug (setState e p st c) = debug c"
  "clientDebug (setState e p st c) = clientDebug c"
  "messageHandlers (setState e p st c) = messageHandlers c"
  "stateHandlers (setState e p st c) = stateHandlers c"
  "errorHandlers (setState e p st c) = errorHandlers c"
  "nextWrapper (setState e p st c) = nextWrapper c"
  by (simp_all add: setState_def)


lemma emitError_frame [simp]:
  "state (emitError e p err c) = state c"
  "debug (emitError e p err c) = debug c"
  "clientDebug (emitError e p err c) = clientDebug c"
  "messageHandlers (emitError e p err c) = messageHandlers c"
  "stateHandlers (emitError e p err c) = stateHandlers c"
  "errorHandlers (emitError e p err c) = errorHandlers c"
  "nextWrapper (emitError e p err c) = nextWrapper c"
  "observerCalls (calls (emitError e p err c)) =
     observerCalls (calls c) @ map (\<lambda>h. (h, Err err)) (errorHandlers c)"
  by (simp_all add: emitError_def)

section \<open>State changes\<close>




lemma distinct_setAdd: "distinct xs \<Longrightarrow> distinct (setAdd x xs)"
  by (simp add: setAdd_def)

lemma distinct_setDelete: "distinct xs \<Longrightarrow> distinct (setDelete x xs)"
  by (simp add: setDelete_def distinct_removeAll)





section \<open>Sending on the socket transport\<close>

lemma inCommon_frame [simp]:
  "common (inCommon f t) = f (common t)"
  "ws (inCommon f t) = ws t"
  "autoReconnect (inCommon f t) = autoReconnect t"
  "reconnectDelay (inCommon f t) = reconnectDelay t"
  "maxReconnectAttempts (inCommon f t) = maxReconnectAttempts t"
  "reconnectAttempts (inCommon f t) = reconnectAttempts t"
  "reconnectTimeout (inCommon f t) = reconnectTimeout t"
  "connectionTimeout (inCommon f t) = connectionTimeout t"
  "messageQueue (inCommon f t) = messageQueue t"
  "conns (inCommon f t) = conns t"
  "timers (inCommon f t) = timers t"
  "nextTimer (inCommon f t) = nextTimer t"
  "wire (inCommon f t) = wire t"
  "closed (inCommon f t) = closed t"
  by (simp_all add: inCommon_def)

lemmas ws_defs = ws_log_def ws_setState_def ws_emitError_def

lemma ws_send_queues:
  "state (common t) \<noteq> Connected \<or> ws t = None \<Longrightarrow>
   fst (ws_send e m t) = None \<and>
   messageQueue (snd (ws_send e m t)) = messageQueue t @ [m] \<and>
   wire (snd (ws_send e m t)) = wire t \<and>
   calls (common (snd (ws_send e m t))) = calls (common t) \<and>
   state (common (snd (ws_send e m t))) = state (common t)"
  by (auto simp: ws_send_def Let_def ws_defs)

lemma ws_send_writes:
  "state (common t) = Connected \<Longrightarrow> ws t \<noteq> None \<Longrightarrow> sendThrows e m = None \<Longrightarrow>
   fst (ws_send e m t) = None \<and>
   messageQueue (snd (ws_send e m t)) = messageQueue t \<and>
   wire (snd (ws_send e m t)) = wire t @ [m] \<and>
   calls (common (snd (ws_send e m t))) = calls (common t)"
  by (auto simp: ws_send_def Let_def ws_defs)

lemma ws_send_fails:
  "state (common t) = Connected \<Longrightarrow> ws t \<noteq> None \<Longrightarrow> sendThrows e m = Some x \<Longrightarrow>
   fst (ws_send e m t) = Some (toError x ''Send failed'') \<and>
   messageQueue (snd (ws_send e m t)) = messageQueue t \<and>
   wire (snd (ws_send e m t)) = wire t \<and>
   observerCalls (calls (common (snd (ws_send e m t)))) =
     observerCalls (calls (common t)) @
       map (\<lambda>h. (h, Err (toError x ''Send failed''))) (errorHandlers (common t))"
  by (auto simp: ws_send_def Let_def ws_defs)

lemma ws_send_frame [simp]:
  "state (common (snd (ws_send e m t))) = state (common t)"
  "debug (common (snd (ws_send e m t))) = debug (common t)"
  "errorHandlers (common (snd (ws_send e m t))) = errorHandlers (common t)"
  "stateHandlers (common (snd (ws_send e m t))) = stateHandlers (common t)"
  "messageHandlers (common (snd (ws_send e m t))) = messageHandlers (common t)"
  "ws (snd (ws_send e m t)) = ws t"
  "autoReconnect (snd (ws_send e m t)) = autoReconnect t"
  "reconnectDelay (snd (ws_send e m t)) = reconnectDelay t"
  "maxReconnectAttempts (snd (ws_send e m t)) = maxReconnectAttempts t"
  "reconnectAttempts (snd (ws_send e m t)) = reconnectAttempts t"
  "reconnectTimeout (snd (ws_send e m t)) = reconnectTimeout t"
  "conns (snd (ws_send e m t)) = conns t"
  "timers (snd (ws_send e m t)) = timers t"
  "nextTimer (snd (ws_send e m t)) = nextTimer t"
  "closed (snd (ws_send e m t)) = closed t"
  by (simp_all add: ws_send_def Let_def ws_defs split: option.splits)

text \<open>
  Claim C6. On the socket transport, \<open>send\<close> in a state other than \<open>connected\<close> appends
  the message to the queue and returns without error: nothing is written and nobody is
  called. In state \<open>connected\<close> with \<open>this.ws\<close> set, which is the guard under which the
  code reaches \<open>JSON.stringify\<close> and \<open>ws.send\<close> at all, an exception of
  \<open>JSON.stringify\<close> or \<open>ws.send\<close> is passed to every registered error observer, in
  registration order, and the promise is rejected with it; the message is neither
  written nor queued.
\<close>

theorem C6_socket_send:
  "(state (common t) \<noteq> Connected \<longrightarrow>
      fst (ws_send e m t) = None \<and>
      messageQueue (snd (ws_send e m t)) = messageQueue t @ [m] \<and>
      wire (snd (ws_send e m t)) = wire t \<and>
      calls (common (snd (ws_send e m t))) = calls (common t)) \<and>
   (state (common t) = Connected \<and> ws t \<noteq> None \<and> sendThrows e m = Some x \<longrightarrow>
      fst (ws_send e m t) = Some (toError x ''Send failed'') \<and>
      observerCalls (calls (common (snd (ws_send e m t)))) =
        observerCalls (calls (common t)) @
          map (\<lambda>h. (h, Err (toError x ''Send failed''))) (errorHandlers (common t)) \<and>
      messageQueue (snd (ws_send e m t)) = messageQueue t \<and>
      wire (snd (ws_send e m t)) = wire t)"
  using ws_send_queues [of t e m] ws_send_fails [of t e m x] by blast

section \<open>Timers, sockets and reconnection\<close>

lemma setTimeout_frame [simp]:
  "fst (setTimeout cb d t) = nextTimer t"
  "common (snd (setTimeout cb d t)) = common t"
  "ws (snd (setTimeout cb d t)) = ws t"
  "autoReconnect (snd (setTimeout cb d t)) = autoReconnect t"
  "reconnectDelay (snd (setTimeout cb d t)) = reconnectDelay t"
  "maxReconnectAttempts (snd (setTimeout cb d t)) = maxReconnectAttempts t"
  "reconnectAttempts (snd (setTimeout cb d t)) = reconnectAttempts t"
  "reconnectTimeout (snd (setTimeout cb d t)) = reconnectTimeout t"
  "connectionTimeout (snd (setTimeout cb d t)) = connectionTimeout t"
  "messageQueue (snd (setTimeout cb d t)) = messageQueue t"
  "conns (snd (setTimeout cb d t)) = conns t"
  "timers (snd (setTimeout cb d t)) = timers t @ [(nextTimer t, cb, d)]"
  "nextTimer (snd (setTimeout cb d t)) = Suc (nextTimer t)"
  "wire (snd (setTimeout cb d t)) = wire t"
  "closed (snd (setTimeout cb d t)) = closed t"
  by (simp_all add: setTimeout_def)

lemma clearTimeout_frame [simp]:
  "common (clearTimeout h t) = common t"
  "ws (clearTimeout h t) = ws t"
  "autoReconnect (clearTimeout h t) = autoReconnect t"
  "reconnectDelay (clearTimeout h t) = reconnectDelay t"
  "maxReconnectAttempts (clearTimeout h t) = maxReconnectAttempts t"
  "reconnectAttempts (clearTimeout h t) = reconnectAttempts t"
  "reconnectTimeout (clearTimeout h t) = reconnectTimeout t"
  "connectionTimeout (clearTimeout h t) = connectionTimeout t"
  "messageQueue (clearTimeout h t) = messageQueue t"
  "conns (clearTimeout h t) = conns t"
  "timers (clearTimeout h t) = filter (\<lambda>x. fst x \<noteq> h) (timers t)"
  "nextTimer (clearTimeout h t) = nextTimer t"
  "wire (clearTimeout h t) = wire t"
  "closed (clearTimeout h t) = closed t"
  by (simp_all add: clearTimeout_def)

lemma closeSocket_frame [simp]:
  "common (closeSocket t) = common t"
  "ws (closeSocket t) = ws t"
  "autoReconnect (closeSocket t) = autoReconnect t"
  "reconnectDelay (closeSocket t) = reconnectDelay t"
  "maxReconnectAttempts (closeSocket t) = maxReconnectAttempts t"
  "reconnectAttempts (closeSocket t) = reconnectAttempts t"
  "reconnectTimeout (closeSocket t) = reconnectTimeout t"
  "connectionTimeout (closeSocket t) = connectionTimeout t"
  "messageQueue (closeSocket t) = messageQueue t"
  "conns (closeSocket t) = conns t"
  "timers (closeSocket t) = timers t"
  "nextTimer (closeSocket t) = nextTimer t"
  "wire (closeSocket t) = wire t"
  by (simp_all add: closeSocket_def split: option.splits)

lemma settle_frame [simp]:
  "common (snd (settle k t)) = common t"
  "ws (snd (settle k t)) = ws t"
  "autoReconnect (snd (settle k t)) = autoReconnect t"
  "reconnectDelay (snd (settle k t)) = reconnectDelay t"
  "maxReconnectAttempts (snd (settle k t)) = maxReconnectAttempts t"
  "reconnectAttempts (snd (settle k t)) = reconnectAttempts t"
  "reconnectTimeout (snd (settle k t)) = reconnectTimeout t"
  "connectionTimeout (snd (settle k t)) = connectionTimeout t"
  "messageQueue (snd (settle k t)) = messageQueue t"
  "length (conns (snd (settle k t))) = length (conns t)"
  "timers (snd (settle k t)) = timers t"
  "nextTimer (snd (settle k t)) = nextTimer t"
  "wire (snd (settle k t)) = wire t"
  "closed (snd (settle k t)) = closed t"
  by (simp_all add: settle_def)

lemma ws_scheduleReconnect_frame [simp]:
  "ws (ws_scheduleReconnect t) = ws t"
  "autoReconnect (ws_scheduleReconnect t) = autoReconnect t"
  "reconnectDelay (ws_scheduleReconnect t) = reconnectDelay t"
  "maxReconnectAttempts (ws_scheduleReconnect t) = maxReconnectAttempts t"
  "reconnectAttempts (ws_scheduleReconnect t) = reconnectAttempts t"
  "reconnectTimeout (ws_scheduleReconnect t) = Some (nextTimer t)"
  "connectionTimeout (ws_scheduleReconnect t) = connectionTimeout t"
  "messageQueue (ws_scheduleReconnect t) = messageQueue t"
  "conns (ws_scheduleReconnect t) = conns t"
  "timers (ws_scheduleReconnect t) =
     timers t @ [(nextTimer t, ReconnectTimer, reconnectDelay t * 2 ^ reconnectAttempts t)]"
  "nextTimer (ws_scheduleReconnect t) = Suc (nextTimer t)"
  "wire (ws_scheduleReconnect t) = wire t"
  "closed (ws_scheduleReconnect t) = closed t"
  "common (ws_scheduleReconnect t) = log ''[WebSocketTransport] '' ''Reconnecting'' (common t)"
  by (simp_all add: ws_scheduleReconnect_def Let_def case_prod_beta ws_defs)

lemma ws_handleDisconnect_frame [simp]:
  "ws (ws_handleDisconnect e t) = None"
  "autoReconnect (ws_handleDisconnect e t) = autoReconnect t"
  "reconnectDelay (ws_handleDisconnect e t) = reconnectDelay t"
  "maxReconnectAttempts (ws_handleDisconnect e t) = maxReconnectAttempts t"
  "reconnectAttempts (ws_handleDisconnect e t) = reconnectAttempts t"
  "connectionTimeout (ws_handleDisconnect e t) = connectionTimeout t"
  "messageQueue (ws_handleDisconnect e t) = messageQueue t"
  "conns (ws_handleDisconnect e t) = conns t"
  "wire (ws_handleDisconnect e t) = wire t"
  "closed (ws_handleDisconnect e t) = closed t"
  by (simp_all add: ws_handleDisconnect_def Let_def ws_defs)

lemma ws_handleDisconnect_schedules:
  "autoReconnect t \<Longrightarrow>
   maxReconnectAttempts t = 0 \<or> reconnectAttempts t < maxReconnectAttempts t \<Longrightarrow>
   state (common (ws_handleDisconnect e t)) = Reconnecting \<and>
   timers (ws_handleDisconnect e t) =
     timers t @ [(nextTimer t, ReconnectTimer, reconnectDelay t * 2 ^ reconnectAttempts t)] \<and>
   reconnectTimeout (ws_handleDisconnect e t) = Some (nextTimer t)"
  by (simp add: ws_handleDisconnect_def Let_def ws_defs)

lemma ws_handleDisconnect_settles:
  "\<not> (autoReconnect t \<and>
       (maxReconnectAttempts t = 0 \<or> reconnectAttempts t < maxReconnectAttempts t)) \<Longrightarrow>
   state (common (ws_handleDisconnect e t)) = Disconnected \<and>
   timers (ws_handleDisconnect e t) = timers t \<and>
   reconnectTimeout (ws_handleDisconnect e t) = reconnectTimeout t"
  by (simp add: ws_handleDisconnect_def Let_def ws_defs)

lemma onRejected_frame [simp]:
  "autoReconnect (onRejected e via t) = autoReconnect t"
  "reconnectDelay (onRejected e via t) = reconnectDelay t"
  "maxReconnectAttempts (onRejected e via t) = maxReconnectAttempts t"
  "reconnectAttempts (onRejected e via t) = reconnectAttempts t"
  "connectionTimeout (onRejected e via t) = connectionTimeout t"
  "messageQueue (onRejected e via t) = messageQueue t"
  "conns (onRejected e via t) = conns t"
  "wire (onRejected e via t) = wire t"
  "closed (onRejected e via t) = closed t"
  by (simp_all add: onRejected_def ws_defs)

lemma ws_connect_frame [simp]:
  "autoReconnect (ws_connect e via t) = autoReconnect t"
  "reconnectDelay (ws_connect e via t) = reconnectDelay t"
  "maxReconnectAttempts (ws_connect e via t) = maxReconnectAttempts t"
  "reconnectAttempts (ws_connect e via t) = reconnectAttempts t"
  "connectionTimeout (ws_connect e via t) = connectionTimeout t"
  "messageQueue (ws_connect e via t) = messageQueue t"
  "wire (ws_connect e via t) = wire t"
  "closed (ws_connect e via t) = closed t"
  by (simp_all add: ws_connect_def Let_def case_prod_beta ws_defs split: option.splits)

lemma find_timer_filter:
  "find (\<lambda>x. fst x = h) ts = Some y \<Longrightarrow> fst y = h"
  by (induction ts) (auto split: if_splits)

lemma fireTimer_reconnect:
  "find (\<lambda>x. fst x = h) (timers t) = Some (h', ReconnectTimer, d) \<Longrightarrow>
   reconnectAttempts (fireTimer e h t) = Suc (reconnectAttempts t)"
  by (simp add: fireTimer_def Let_def)

section \<open>Flushing the queue\<close>

lemma ws_log_frame [simp]:
  "common (ws_log m t) = log ''[WebSocketTransport] '' m (common t)"
  "ws (ws_log m t) = ws t"
  "autoReconnect (ws_log m t) = autoReconnect t"
  "reconnectDelay (ws_log m t) = reconnectDelay t"
  "maxReconnectAttempts (ws_log m t) = maxReconnectAttempts t"
  "reconnectAttempts (ws_log m t) = reconnectAttempts t"
  "reconnectTimeout (ws_log m t) = reconnectTimeout t"
  "connectionTimeout (ws_log m t) = connectionTimeout t"
  "messageQueue (ws_log m t) = messageQueue t"
  "conns (ws_log m t) = conns t"
  "timers (ws_log m t) = timers t"
  "nextTimer (ws_log m t) = nextTimer t"
  "wire (ws_log m t) = wire t"
  "closed (ws_log m t) = closed t"
  by (simp_all add: ws_log_def)

lemma ws_setState_frame [simp]:
  "common (ws_setState e st t) = setState e ''[WebSocketTransport] '' st (common t)"
  "ws (ws_setState e st t) = ws t"
  "autoReconnect (ws_setState e st t) = autoReconnect t"
  "reconnectDelay (ws_setState e st t) = reconnectDelay t"
  "maxReconnectAttempts (ws_setState e st t) = maxReconnectAttempts t"
  "reconnectAttempts (ws_setState e st t) = reconnectAttempts t"
  "reconnectTimeout (ws_setState e st t) = reconnectTimeout t"
  "connectionTimeout (ws_setState e st t) = connectionTimeout t"
  "messageQueue (ws_setState e st t) = messageQueue t"
  "conns (ws_setState e st t) = conns t"
  "timers (ws_setState e st t) = timers t"
  "nextTimer (ws_setState e st t) = nextTimer t"
  "wire (ws_setState e st t) = wire t"
  "closed (ws_setState e st t) = closed t"
  by (simp_all add: ws_setState_def)

lemma ws_emitError_frame [simp]:
  "common (ws_emitError e err t) = emitError e ''[WebSocketTransport] '' err (common t)"
  "ws (ws_emitError e err t) = ws t"
  "autoReconnect (ws_emitError e err t) = autoReconnect t"
  "reconnectDelay (ws_emitError e err t) = reconnectDelay t"
  "maxReconnectAttempts (ws_emitError e err t) = maxReconnectAttempts t"
  "reconnectAttempts (ws_emitError e err t) = reconnectAttempts t"
  "reconnectTimeout (ws_emitError e err t) = reconnectTimeout t"
  "connectionTimeout (ws_emitError e err t) = connectionTimeout t"
  "messageQueue (ws_emitError e err t) = messageQueue t"
  "conns (ws_emitError e err t) = conns t"
  "timers (ws_emitError e err t) = timers t"
  "nextTimer (ws_emitError e err t) = nextTimer t"
  "wire (ws_emitError e err t) = wire t"
  "closed (ws_emitError e err t) = closed t"
  by (simp_all add: ws_emitError_def)

lemma flushLogged_log [simp]:
  "flushLogged (log p m c) = flushLogged c + (if debug c \<and> p @ m = flushLine then 1 else 0)"
  by (simp add: flushLogged_def log_def)

lemma flushLogged_client_log [simp]: "flushLogged (client_log m c) = flushLogged c"
  by (simp add: flushLogged_def client_log_def flushLine_def)

lemma flushLogged_calls_update [simp]: "flushLogged (c\<lparr>calls := x\<rparr>) = flushLogged c"
  by (simp add: flushLogged_def)

lemma flushLogged_state_update [simp]: "flushLogged (c\<lparr>state := x\<rparr>) = flushLogged c"
  by (simp add: flushLogged_def)

lemma flushLogged_unsubscribe [simp]: "flushLogged (unsubscribe t h c) = flushLogged c"
  by (simp add: unsubscribe_def Let_def flushLogged_def client_log_def flushLine_def split: option.splits)

lemma flushLogged_callHandler [simp]: "flushLogged (snd (callHandler e t d h c)) = flushLogged c"
  by (cases h) (simp_all add: callHandler_def Let_def)

lemma flushLogged_forEachCaught [simp]: "flushLogged (forEachCaught e t d hs c) = flushLogged c"
  by (induction hs arbitrary: c) (simp_all add: case_prod_beta)

lemma flushLogged_forEachUncaught [simp]:
  "flushLogged (snd (forEachUncaught e t d hs c)) = flushLogged c"
  by (induction hs arbitrary: c) (simp_all add: case_prod_beta)

lemma flushLogged_client_handle [simp]:
  "flushLogged (client_handleMessage e m c) = flushLogged c"
  "flushLogged (snd (client_handleStateChange e st c)) = flushLogged c"
  "flushLogged (snd (client_handleError e err c)) = flushLogged c"
  by (simp_all add: client_handleMessage_def client_handleStateChange_def client_handleError_def
        Let_def split: option.splits)

lemma flushLogged_callObserver [simp]: "flushLogged (snd (callObserver e a h c)) = flushLogged c"
  by (cases h; cases a; simp add: callObserver_def Let_def)

lemma flushLogged_notify [simp]:
  "p @ l \<noteq> flushLine \<Longrightarrow> flushLogged (notify e p l a hs c) = flushLogged c"
  by (induction hs arbitrary: c) (simp_all add: case_prod_beta)

lemma flushLogged_setState [simp]:
  "flushLogged (setState e ''[WebSocketTransport] '' st c) = flushLogged c"
  by (simp add: setState_def flushLine_def)

lemma flushLogged_emitError [simp]:
  "flushLogged (emitError e ''[WebSocketTransport] '' err c) = flushLogged c"
  by (simp add: emitError_def flushLine_def)

lemma flushLogged_ws_send [simp]:
  "flushLogged (common (snd (ws_send e m t))) = flushLogged (common t)"
  by (simp add: ws_send_def Let_def ws_defs flushLine_def split: option.splits)



lemma errorCalls_append [simp]: "errorCalls hs (xs @ ys) = errorCalls hs xs @ errorCalls hs ys"
  by (simp add: errorCalls_def)

lemma flushSends_frame [simp]:
  "state (common (snd (flushSends e ms t))) = state (common t)"
  "debug (common (snd (flushSends e ms t))) = debug (common t)"
  "errorHandlers (common (snd (flushSends e ms t))) = errorHandlers (common t)"
  "stateHandlers (common (snd (flushSends e ms t))) = stateHandlers (common t)"
  "messageHandlers (common (snd (flushSends e ms t))) = messageHandlers (common t)"
  "ws (snd (flushSends e ms t)) = ws t"
  "autoReconnect (snd (flushSends e ms t)) = autoReconnect t"
  "reconnectDelay (snd (flushSends e ms t)) = reconnectDelay t"
  "maxReconnectAttempts (snd (flushSends e ms t)) = maxReconnectAttempts t"
  "reconnectAttempts (snd (flushSends e ms t)) = reconnectAttempts t"
  "reconnectTimeout (snd (flushSends e ms t)) = reconnectTimeout t"
  "conns (snd (flushSends e ms t)) = conns t"
  "timers (snd (flushSends e ms t)) = timers t"
  "nextTimer (snd (flushSends e ms t)) = nextTimer t"
  "closed (snd (flushSends e ms t)) = closed t"
  "flushLogged (common (snd (flushSends e ms t))) = flushLogged (common t)"
  by (induction ms arbitrary: t; simp add: case_prod_beta)+


lemma fold_ws_log_frame [simp]:
  "state (common (fold (\<lambda>err. ws_log l) errs t)) = state (common t)"
  "debug (common (fold (\<lambda>err. ws_log l) errs t)) = debug (common t)"
  "errorHandlers (common (fold (\<lambda>err. ws_log l) errs t)) = errorHandlers (common t)"
  "stateHandlers (common (fold (\<lambda>err. ws_log l) errs t)) = stateHandlers (common t)"
  "messageHandlers (common (fold (\<lambda>err. ws_log l) errs t)) = messageHandlers (common t)"
  "calls (common (fold (\<lambda>err. ws_log l) errs t)) = calls (common t)"
  "eventHandlers (common (fold (\<lambda>err. ws_log l) errs t)) = eventHandlers (common t)"
  "ws (fold (\<lambda>err. ws_log l) errs t) = ws t"
  "autoReconnect (fold (\<lambda>err. ws_log l) errs t) = autoReconnect t"
  "reconnectDelay (fold (\<lambda>err. ws_log l) errs t) = reconnectDelay t"
  "maxReconnectAttempts (fold (\<lambda>err. ws_log l) errs t) = maxReconnectAttempts t"
  "reconnectAttempts (fold (\<lambda>err. ws_log l) errs t) = reconnectAttempts t"
  "reconnectTimeout (fold (\<lambda>err. ws_log l) errs t) = reconnectTimeout t"
  "messageQueue (fold (\<lambda>err. ws_log l) errs t) = messageQueue t"
  "conns (fold (\<lambda>err. ws_log l) errs t) = conns t"
  "timers (fold (\<lambda>err. ws_log l) errs t) = timers t"
  "nextTimer (fold (\<lambda>err. ws_log l) errs t) = nextTimer t"
  "wire (fold (\<lambda>err. ws_log l) errs t) = wire t"
  "closed (fold (\<lambda>err. ws_log l) errs t) = closed t"
  by (induction errs arbitrary: t; simp add: ws_log_def)+


lemma ws_flushMessageQueue_frame [simp]:
  "state (common (ws_flushMessageQueue e t)) = state (common t)"
  "debug (common (ws_flushMessageQueue e t)) = debug (common t)"
  "errorHandlers (common (ws_flushMessageQueue e t)) = errorHandlers (common t)"
  "stateHandlers (common (ws_flushMessageQueue e t)) = stateHandlers (common t)"
  "messageHandlers (common (ws_flushMessageQueue e t)) = messageHandlers (common t)"
  "ws (ws_flushMessageQueue e t) = ws t"
  "autoReconnect (ws_flushMessageQueue e t) = autoReconnect t"
  "reconnectDelay (ws_flushMessageQueue e t) = reconnectDelay t"
  "maxReconnectAttempts (ws_flushMessageQueue e t) = maxReconnectAttempts t"
  "reconnectAttempts (ws_flushMessageQueue e t) = reconnectAttempts t"
  "reconnectTimeout (ws_flushMessageQueue e t) = reconnectTimeout t"
  "conns (ws_flushMessageQueue e t) = conns t"
  "timers (ws_flushMessageQueue e t) = timers t"
  "nextTimer (ws_flushMessageQueue e t) = nextTimer t"
  "closed (ws_flushMessageQueue e t) = closed t"
  by (simp_all add: ws_flushMessageQueue_def Let_def case_prod_beta)


section \<open>Reconnection and the flush on connection\<close>

lemmas ws_all_defs =
  new_WebSocketTransport_def newCommon_def ws_connect_def ws_disconnect_def ws_send_def
  ws_handleDisconnect_def ws_scheduleReconnect_def ws_handleMessage_def ws_onopen_def
  ws_onerror_def ws_onclose_def ws_onmessage_def fireTimer_def onRejected_def settle_def
  setTimeout_def clearTimeout_def closeSocket_def ws_flushMessageQueue_def
  ws_log_def ws_setState_def ws_emitError_def inCommon_def
  setState_def emitError_def log_def client_log_def
  onMessage_def onStateChange_def onError_def offMessage_def offStateChange_def offError_def
  setAdd_def setDelete_def callObserver_def callHandler_def unsubscribe_def
  client_on_def client_once_def client_off_def client_handleMessage_def
  client_handleStateChange_def client_handleError_def
  new_TalonClient_def client_connect_def client_disconnect_def client_cleanup_def
  client_send_def client_message_def generateId_def Let_def

lemma t4_eval:
  "messageQueue t4 = [goodMessage, badMessage]" "calls (common t4) = []" "ws t4 = Some 0"
  "length (conns t4) = 1" "state (common t4) = Connecting" "wire t4 = []"
  "errorHandlers (common t4) = [Fn 5]" "stateHandlers (common t4) = []"
  "debug (common t4) = True" "flushLogged (common t4) = 0"
  by (simp_all add: t4_def env1_def ws_all_defs goodMessage_def badMessage_def flushLogged_def
        flushLine_def)

lemma ws_onopen_attempts: "k < length (conns t) \<Longrightarrow> reconnectAttempts (ws_onopen e k t) = 0"
  by (simp add: ws_onopen_def Let_def)




text \<open>
  What \<open>handleDisconnect\<close>, a reconnect timer and \<open>onopen\<close> do to the counter
  \<open>reconnectAttempts\<close> and to the timers, each taken alone. \<open>handleDisconnect\<close> runs on
  every closure (\<open>onclose\<close> calls it once it has cleared the connection timeout). With
  auto-reconnect on, if the limit is 0 or the counter is below it, the state becomes
  \<open>reconnecting\<close> and one timer is started, after \<open>reconnectDelay * 2 ^ reconnectAttempts\<close>
  milliseconds, with no upper bound; otherwise the state becomes \<open>disconnected\<close> and no
  timer is started. When a reconnect timer fires the counter goes up by one, and
  \<open>onopen\<close> sets it to 0.
\<close>

lemma reconnect_steps:
  "(k < length (conns t) \<longrightarrow>
      ws_onclose e k t = ws_handleDisconnect e (clearTimeout (timeoutHandle (conns t ! k)) t)) \<and>
   (autoReconnect t \<and>
    (maxReconnectAttempts t = 0 \<or> reconnectAttempts t < maxReconnectAttempts t) \<longrightarrow>
      state (common (ws_handleDisconnect e t)) = Reconnecting \<and>
      timers (ws_handleDisconnect e t) =
        timers t @ [(nextTimer t, ReconnectTimer, reconnectDelay t * 2 ^ reconnectAttempts t)] \<and>
      reconnectTimeout (ws_handleDisconnect e t) = Some (nextTimer t)) \<and>
   (autoReconnect t \<and>
    \<not> (maxReconnectAttempts t = 0 \<or> reconnectAttempts t < maxReconnectAttempts t) \<longrightarrow>
      state (common (ws_handleDisconnect e t)) = Disconnected \<and>
      timers (ws_handleDisconnect e t) = timers t) \<and>
   reconnectAttempts (ws_handleDisconnect e t) = reconnectAttempts t \<and>
   (find (\<lambda>x. fst x = h) (timers t) = Some (h, ReconnectTimer, d) \<longrightarrow>
      reconnectAttempts (fireTimer e h t) = Suc (reconnectAttempts t)) \<and>
   (k < length (conns t) \<longrightarrow> reconnectAttempts (ws_onopen e k t) = 0)"
proof -
  have a: "k < length (conns t) \<longrightarrow>
      ws_onclose e k t = ws_handleDisconnect e (clearTimeout (timeoutHandle (conns t ! k)) t)"
    by (simp add: ws_onclose_def)
  have b: "autoReconnect t \<and>
    (maxReconnectAttempts t = 0 \<or> reconnectAttempts t < maxReconnectAttempts t) \<longrightarrow>
      state (common (ws_handleDisconnect e t)) = Reconnecting \<and>
      timers (ws_handleDisconnect e t) =
        timers t @ [(nextTimer t, ReconnectTimer, reconnectDelay t * 2 ^ reconnectAttempts t)] \<and>
      reconnectTimeout (ws_handleDisconnect e t) = Some (nextTimer t)"
    using ws_handleDisconnect_schedules [of t e] by blast
  have c: "autoReconnect t \<and>
    \<not> (maxReconnectAttempts t = 0 \<or> reconnectAttempts t < maxReconnectAttempts t) \<longrightarrow>
      state (common (ws_handleDisconnect e t)) = Disconnected \<and>
      timers (ws_handleDisconnect e t) = timers t"
    using ws_handleDisconnect_settles [of t e] by blast
  have d: "find (\<lambda>x. fst x = h) (timers t) = Some (h, ReconnectTimer, d) \<longrightarrow>
      reconnectAttempts (fireTimer e h t) = Suc (reconnectAttempts t)"
    using fireTimer_reconnect [of h t h d e] by blast
  have f: "k < length (conns t) \<longrightarrow> reconnectAttempts (ws_onopen e k t) = 0"
    by (simp add: ws_onopen_attempts)
  from a b c d f show ?thesis by simp
qed




lemma t6_eval:
  "state (common (ws_onopen env1 0 t4)) = Connected" "ws (ws_onopen env1 0 t4) = Some 0"
  "sendThrows env1 badMessage = Some (ErrorObject ''cyclic'')"
  "errorHandlers (common (ws_onopen env1 0 t4)) = [Fn 5]"
  "observerCalls (calls (common (ws_onopen env1 0 t4))) = [(Fn 5, Err ''cyclic'')]"
  "messageQueue (ws_onopen env1 0 t4) = []" "wire (ws_onopen env1 0 t4) = [goodMessage]"
  by (simp_all add: t4_def env1_def ws_all_defs goodMessage_def badMessage_def observerCalls_def)

theorem C6_witness:
  "state (common t4) \<noteq> Connected \<and>
   fst (ws_send env1 goodMessage t4) = None \<and>
   messageQueue (snd (ws_send env1 goodMessage t4)) = [goodMessage, badMessage, goodMessage] \<and>
   wire (snd (ws_send env1 goodMessage t4)) = [] \<and>
   state (common (ws_onopen env1 0 t4)) = Connected \<and> ws (ws_onopen env1 0 t4) \<noteq> None \<and>
   sendThrows env1 badMessage = Some (ErrorObject ''cyclic'') \<and>
   fst (ws_send env1 badMessage (ws_onopen env1 0 t4)) = Some ''cyclic'' \<and>
   observerCalls (calls (common (snd (ws_send env1 badMessage (ws_onopen env1 0 t4))))) =
     [(Fn 5, Err ''cyclic''), (Fn 5, Err ''cyclic'')] \<and>
   messageQueue (snd (ws_send env1 badMessage (ws_onopen env1 0 t4))) = [] \<and>
   wire (snd (ws_send env1 badMessage (ws_onopen env1 0 t4))) = [goodMessage]"
  using C6_socket_send [of t4 env1 goodMessage "ErrorObject ''cyclic''"]
        C6_socket_send [of "ws_onopen env1 0 t4" env1 badMessage "ErrorObject ''cyclic''"]
  by (simp add: t4_eval t6_eval)

section \<open>Sending on the webhook transport\<close>

lemma wh_inCommon_frame [simp]:
  "wh_common (wh_inCommon f t) = f (wh_common t)"
  "retry (wh_inCommon f t) = retry t"
  "maxRetries (wh_inCommon f t) = maxRetries t"
  "retryDelay (wh_inCommon f t) = retryDelay t"
  "fetchCalls (wh_inCommon f t) = fetchCalls t"
  "sleeps (wh_inCommon f t) = sleeps t"
  by (simp_all add: wh_inCommon_def)

lemma wh_log_frame [simp]:
  "wh_common (wh_log m t) = log ''[WebhookTransport] '' m (wh_common t)"
  "retry (wh_log m t) = retry t"
  "maxRetries (wh_log m t) = maxRetries t"
  "retryDelay (wh_log m t) = retryDelay t"
  "fetchCalls (wh_log m t) = fetchCalls t"
  "sleeps (wh_log m t) = sleeps t"
  by (simp_all add: wh_log_def)

lemma wh_emitError_frame [simp]:
  "wh_common (wh_emitError e err t) = emitError e ''[WebhookTransport] '' err (wh_common t)"
  "retry (wh_emitError e err t) = retry t"
  "maxRetries (wh_emitError e err t) = maxRetries t"
  "retryDelay (wh_emitError e err t) = retryDelay t"
  "fetchCalls (wh_emitError e err t) = fetchCalls t"
  "sleeps (wh_emitError e err t) = sleeps t"
  by (simp_all add: wh_emitError_def)

lemma wh_sendRequest_frame [simp]:
  "fst (wh_sendRequest e m t) = requestError (fetch e (length (fetchCalls t)))"
  "fetchCalls (snd (wh_sendRequest e m t)) = fetchCalls t @ [m]"
  "calls (wh_common (snd (wh_sendRequest e m t))) = calls (wh_common t)"
  "errorHandlers (wh_common (snd (wh_sendRequest e m t))) = errorHandlers (wh_common t)"
  "state (wh_common (snd (wh_sendRequest e m t))) = state (wh_common t)"
  "retryDelay (snd (wh_sendRequest e m t)) = retryDelay t"
  by (simp_all add: wh_sendRequest_def Let_def split: option.splits)

text \<open>One round of the loop, with the result of the request taken apart.\<close>

lemma afterFailure_frame [simp]:
  "fetchCalls (afterFailure m attempts attempt t) = fetchCalls t @ [m]"
  "calls (wh_common (afterFailure m attempts attempt t)) = calls (wh_common t)"
  "errorHandlers (wh_common (afterFailure m attempts attempt t)) = errorHandlers (wh_common t)"
  "messageHandlers (wh_common (afterFailure m attempts attempt t)) = messageHandlers (wh_common t)"
  "stateHandlers (wh_common (afterFailure m attempts attempt t)) = stateHandlers (wh_common t)"
  "state (wh_common (afterFailure m attempts attempt t)) = state (wh_common t)"
  by (simp_all add: afterFailure_def Let_def)

lemma wh_sendLoop_unfold:
  "wh_sendLoop e m attempts attempt le t =
     (if attempt < attempts then
        (case requestError (fetch e (length (fetchCalls t))) of
           None \<Rightarrow>
             (True, le, wh_log ''Sent message''
                (wh_log ''Request successful: '' (t\<lparr>fetchCalls := fetchCalls t @ [m]\<rparr>)))
         | Some err \<Rightarrow>
             wh_sendLoop e m attempts (Suc attempt) (Some err) (afterFailure m attempts attempt t))
      else (False, le, t))"
  by (subst wh_sendLoop.simps)
     (simp add: wh_sendRequest_def afterFailure_def Let_def split: option.splits)

lemma wh_sendLoop_keeps:
  "calls (wh_common (snd (snd (wh_sendLoop e m attempts attempt le t)))) = calls (wh_common t) \<and>
   errorHandlers (wh_common (snd (snd (wh_sendLoop e m attempts attempt le t)))) =
     errorHandlers (wh_common t) \<and>
   messageHandlers (wh_common (snd (snd (wh_sendLoop e m attempts attempt le t)))) =
     messageHandlers (wh_common t) \<and>
   stateHandlers (wh_common (snd (snd (wh_sendLoop e m attempts attempt le t)))) =
     stateHandlers (wh_common t) \<and>
   state (wh_common (snd (snd (wh_sendLoop e m attempts attempt le t)))) = state (wh_common t)"
proof (induction "attempts - attempt" arbitrary: attempt le t)
  case 0
  then show ?case
    by (subst (1 2 3 4 5) wh_sendLoop_unfold) simp
next
  case (Suc n)
  have n: "n = attempts - Suc attempt"
    using Suc(2) by simp
  show ?case
    using Suc(1) [OF n] by (subst (1 2 3 4 5) wh_sendLoop_unfold) (simp split: option.splits)
qed

lemma wh_sendLoop_frame [simp]:
  "calls (wh_common (snd (snd (wh_sendLoop e m attempts attempt le t)))) = calls (wh_common t)"
  "errorHandlers (wh_common (snd (snd (wh_sendLoop e m attempts attempt le t)))) =
     errorHandlers (wh_common t)"
  "messageHandlers (wh_common (snd (snd (wh_sendLoop e m attempts attempt le t)))) =
     messageHandlers (wh_common t)"
  "stateHandlers (wh_common (snd (snd (wh_sendLoop e m attempts attempt le t)))) =
     stateHandlers (wh_common t)"
  "state (wh_common (snd (snd (wh_sendLoop e m attempts attempt le t)))) = state (wh_common t)"
  using wh_sendLoop_keeps [of e m attempts attempt le t] by simp_all

lemma wh_sendLoop_count:
  "length (fetchCalls (snd (snd (wh_sendLoop e m attempts attempt le t)))) \<le>
     length (fetchCalls t) + (attempts - attempt)"
proof (induction "attempts - attempt" arbitrary: attempt le t)
  case 0
  then show ?case by (subst wh_sendLoop_unfold) simp
next
  case (Suc n)
  have n: "n = attempts - Suc attempt" using Suc(2) by simp
  have lt: "attempt < attempts" using Suc(2) by simp
  show ?case
  proof (cases "requestError (fetch e (length (fetchCalls t)))")
    case None
    then show ?thesis using lt by (subst wh_sendLoop_unfold) simp
  next
    case (Some err)
    have "length (fetchCalls (snd (snd (wh_sendLoop e m attempts (Suc attempt) (Some err)
              (afterFailure m attempts attempt t))))) \<le>
          length (fetchCalls (afterFailure m attempts attempt t)) + (attempts - Suc attempt)"
      by (rule Suc(1) [OF n])
    then show ?thesis using lt Some by (subst wh_sendLoop_unfold) simp
  qed
qed

lemma wh_sendLoop_success:
  "attempt + j < attempts \<Longrightarrow>
   (\<forall>i<j. requestError (fetch e (length (fetchCalls t) + i)) \<noteq> None) \<Longrightarrow>
   requestError (fetch e (length (fetchCalls t) + j)) = None \<Longrightarrow>
   fst (wh_sendLoop e m attempts attempt le t) \<and>
   fetchCalls (snd (snd (wh_sendLoop e m attempts attempt le t))) =
     fetchCalls t @ replicate (Suc j) m"
proof (induction j arbitrary: attempt le t)
  case 0
  then show ?case by (subst (1 2) wh_sendLoop_unfold) simp
next
  case (Suc j)
  have "requestError (fetch e (length (fetchCalls t) + 0)) \<noteq> None"
    using Suc.prems(2) by blast
  then obtain err where err: "requestError (fetch e (length (fetchCalls t))) = Some err"
    by auto
  let ?t = "afterFailure m attempts attempt t"
  have a: "Suc attempt + j < attempts" using Suc.prems(1) by simp
  have b: "\<forall>i<j. requestError (fetch e (length (fetchCalls ?t) + i)) \<noteq> None"
    using Suc.prems(2) by auto
  have c: "requestError (fetch e (length (fetchCalls ?t) + j)) = None"
    using Suc.prems(3) by simp
  have lt: "attempt < attempts" using Suc.prems(1) by simp
  show ?case
    using Suc.IH [OF a b c, of "Some err"] lt err
    by (subst (1 2) wh_sendLoop_unfold) (simp add: replicate_app_Cons_same)
qed

lemma wh_sendLoop_all_fail:
  "(\<forall>i < attempts - attempt. requestError (fetch e (length (fetchCalls t) + i)) \<noteq> None) \<Longrightarrow>
   \<not> fst (wh_sendLoop e m attempts attempt le t) \<and>
   fst (snd (wh_sendLoop e m attempts attempt le t)) =
     (if attempt < attempts
      then requestError (fetch e (length (fetchCalls t) + (attempts - attempt) - 1)) else le) \<and>
   fetchCalls (snd (snd (wh_sendLoop e m attempts attempt le t))) =
     fetchCalls t @ replicate (attempts - attempt) m"
proof (induction "attempts - attempt" arbitrary: attempt le t)
  case 0
  then show ?case by (subst (1 2 3) wh_sendLoop_unfold) simp
next
  case (Suc n)
  have n: "n = attempts - Suc attempt" using Suc(2) by simp
  have lt: "attempt < attempts" using Suc(2) by simp
  have "0 < attempts - attempt" using lt by simp
  with Suc(3) have "requestError (fetch e (length (fetchCalls t) + 0)) \<noteq> None"
    by blast
  then obtain err where err: "requestError (fetch e (length (fetchCalls t))) = Some err"
    by auto
  let ?t = "afterFailure m attempts attempt t"
  have b: "\<forall>i < attempts - Suc attempt.
             requestError (fetch e (length (fetchCalls ?t) + i)) \<noteq> None"
  proof (intro allI impI)
    fix i
    assume "i < attempts - Suc attempt"
    then have "Suc i < attempts - attempt" by simp
    with Suc(3) have "requestError (fetch e (length (fetchCalls t) + Suc i)) \<noteq> None"
      by blast
    then show "requestError (fetch e (length (fetchCalls ?t) + i)) \<noteq> None"
      by simp
  qed
  have r: "attempts - attempt = Suc (attempts - Suc attempt)" using lt by simp
  show ?case
  proof (cases "Suc attempt < attempts")
    case True
    then show ?thesis
      using Suc(1) [OF n b, of "Some err"] lt err r
      by (subst (1 2 3) wh_sendLoop_unfold) (simp add: replicate_app_Cons_same)
  next
    case False
    then have z: "attempts - Suc attempt = 0" by simp
    show ?thesis
      using Suc(1) [OF n b, of "Some err"] lt err False z r
      by (subst (1 2 3) wh_sendLoop_unfold) simp
  qed
qed

lemma wh_attempts_pos [simp]: "0 < wh_attempts t"
  by (simp add: wh_attempts_def)

lemma wh_send_disconnected:
  "state (wh_common t) \<noteq> Connected \<Longrightarrow> wh_send e m t = (Some ''Transport not connected'', t)"
  by (simp add: wh_send_def)

lemma wh_send_result:
  "state (wh_common t) = Connected \<Longrightarrow>
   wh_send e m t =
     (let r = wh_sendLoop e m (wh_attempts t) 0 None t
      in if fst r then (None, snd (snd r))
         else case fst (snd r) of
                Some lastError \<Rightarrow> (Some lastError, wh_emitError e lastError (snd (snd r)))
              | None \<Rightarrow> (None, snd (snd r)))"
  by (simp add: wh_send_def Let_def split: prod.splits option.splits bool.splits)

lemma wh_send_count:
  "state (wh_common t) = Connected \<Longrightarrow>
   length (fetchCalls (snd (wh_send e m t))) \<le>
     length (fetchCalls t) + (wh_attempts t)"
  using wh_sendLoop_count [of e m "wh_attempts t" 0 None t]
  by (simp add: wh_send_result Let_def split: option.splits)

lemma wh_send_success:
  assumes "state (wh_common t) = Connected"
    and "j < (wh_attempts t)"
    and "\<forall>i<j. requestError (fetch e (length (fetchCalls t) + i)) \<noteq> None"
    and "requestError (fetch e (length (fetchCalls t) + j)) = None"
  shows "fst (wh_send e m t) = None"
    and "fetchCalls (snd (wh_send e m t)) = fetchCalls t @ replicate (Suc j) m"
    and "calls (wh_common (snd (wh_send e m t))) = calls (wh_common t)"
proof -
  have a: "0 + j < (wh_attempts t)"
    using assms(2) by simp
  note s = wh_sendLoop_success [OF a assms(3) assms(4), of m None]
  show "fst (wh_send e m t) = None"
    using s by (simp add: wh_send_result [OF assms(1)] Let_def)
  show "fetchCalls (snd (wh_send e m t)) = fetchCalls t @ replicate (Suc j) m"
    using s by (simp add: wh_send_result [OF assms(1)] Let_def)
  show "calls (wh_common (snd (wh_send e m t))) = calls (wh_common t)"
    using s by (simp add: wh_send_result [OF assms(1)] Let_def)
qed

lemma wh_send_all_fail:
  assumes "state (wh_common t) = Connected"
    and "\<forall>i < (wh_attempts t).
           requestError (fetch e (length (fetchCalls t) + i)) \<noteq> None"
  shows "fetchCalls (snd (wh_send e m t)) =
           fetchCalls t @ replicate (wh_attempts t) m"
    and "fst (wh_send e m t) =
           requestError (fetch e (length (fetchCalls t) + (wh_attempts t - 1)))"
    and "\<exists>err. fst (wh_send e m t) = Some err \<and>
           observerCalls (calls (wh_common (snd (wh_send e m t)))) =
             observerCalls (calls (wh_common t)) @
               map (\<lambda>h. (h, Err err)) (errorHandlers (wh_common t))"
proof -
  let ?A = "wh_attempts t"
  let ?r = "wh_sendLoop e m ?A 0 None t"
  let ?last = "requestError (fetch e (length (fetchCalls t) + (wh_attempts t - 1)))"
  have a: "\<forall>i < ?A - 0. requestError (fetch e (length (fetchCalls t) + i)) \<noteq> None"
    using assms(2) by simp
  note s = wh_sendLoop_all_fail [OF a, of m None]
  have "(wh_attempts t - 1) < (wh_attempts t)"
    using wh_attempts_pos [of t] by linarith
  with assms(2) have "?last \<noteq> None" by blast
  then obtain err where err: "?last = Some err" by auto
  have eq: "length (fetchCalls t) + wh_attempts t - 1 = length (fetchCalls t) + (wh_attempts t - 1)"
    using wh_attempts_pos [of t] by linarith
  have s1: "fst ?r = False"
    using s by simp
  have s2: "fst (snd ?r) = Some err"
    using s err eq by simp
  have s3: "fetchCalls (snd (snd ?r)) = fetchCalls t @ replicate ?A m"
    using s by simp
  have w: "wh_send e m t = (Some err, wh_emitError e err (snd (snd ?r)))"
    by (simp add: wh_send_result [OF assms(1)] Let_def s1 s2)
  show "fetchCalls (snd (wh_send e m t)) = fetchCalls t @ replicate (wh_attempts t) m"
    by (simp add: w s3)
  show "fst (wh_send e m t) = ?last"
    using err by (simp add: w)
  have "observerCalls (calls (wh_common (snd (wh_send e m t)))) =
             observerCalls (calls (wh_common t)) @
               map (\<lambda>h. (h, Err err)) (errorHandlers (wh_common t))"
    by (simp add: w)
  then show "\<exists>err. fst (wh_send e m t) = Some err \<and>
           observerCalls (calls (wh_common (snd (wh_send e m t)))) =
             observerCalls (calls (wh_common t)) @
               map (\<lambda>h. (h, Err err)) (errorHandlers (wh_common t))"
    by (simp add: w)
qed

lemma wh_send_no_retry:
  assumes "state (wh_common t) = Connected" and "\<not> retry t"
  shows "fetchCalls (snd (wh_send e m t)) = fetchCalls t @ [m]"
proof (cases "requestError (fetch e (length (fetchCalls t) + 0))")
  case None
  have j: "0 < (wh_attempts t)" by simp
  have one: "wh_attempts t = 1" using assms(2) by (simp add: wh_attempts_def)
  have p: "\<forall>i<0. requestError (fetch e (length (fetchCalls t) + i)) \<noteq> None" by simp
  show ?thesis
    using wh_send_success(2) [OF assms(1) j p None, of m] by simp
next
  case (Some err)
  have "\<forall>i < (wh_attempts t).
           requestError (fetch e (length (fetchCalls t) + i)) \<noteq> None"
    using Some assms(2) by (simp add: wh_attempts_def)
  from wh_send_all_fail(1) [OF assms(1) this, of m] show ?thesis
    using assms(2) by (simp add: wh_attempts_def)
qed

lemma requestError_cases:
  "requestError AbortError = Some ''Request timeout''"
  "requestError (Response status statusText) = None \<longleftrightarrow> 200 \<le> status \<and> status \<le> 299"
  by (simp_all add: requestError_def ok_def)

text \<open>
  Claim C5. On the webhook transport \<open>send\<close> rejects at once, without a request, when
  the state is not \<open>connected\<close>. Otherwise it makes at most \<open>attempts\<close> requests, which
  is \<open>1 + maxRetries\<close> with retry on and 1 with retry off, and exactly one with retry
  off. If request \<open>j\<close> is the first that ends well (a status from 200 to 299), \<open>send\<close>
  returns after these \<open>j + 1\<close> requests, without error and without calling anybody. A
  status outside 200 to 299 and the abort of the timeout are failures like any other.
  If all \<open>attempts\<close> requests fail, the error of the last one is passed to every error
  observer and \<open>send\<close> rejects with it.
\<close>

theorem C5_webhook_send:
  "wh_attempts t = (if retry t then 1 + maxRetries t else 1) \<and>
   (state (wh_common t) \<noteq> Connected \<longrightarrow>
      wh_send e m t = (Some ''Transport not connected'', t)) \<and>
   (state (wh_common t) = Connected \<longrightarrow>
      length (fetchCalls (snd (wh_send e m t))) \<le>
        length (fetchCalls t) + (wh_attempts t)) \<and>
   (state (wh_common t) = Connected \<and> \<not> retry t \<longrightarrow>
      fetchCalls (snd (wh_send e m t)) = fetchCalls t @ [m]) \<and>
   (state (wh_common t) = Connected \<and>
    j < (wh_attempts t) \<and>
    (\<forall>i<j. requestError (fetch e (length (fetchCalls t) + i)) \<noteq> None) \<and>
    requestError (fetch e (length (fetchCalls t) + j)) = None \<longrightarrow>
      fst (wh_send e m t) = None \<and>
      fetchCalls (snd (wh_send e m t)) = fetchCalls t @ replicate (Suc j) m \<and>
      calls (wh_common (snd (wh_send e m t))) = calls (wh_common t)) \<and>
   (state (wh_common t) = Connected \<and>
    (\<forall>i < (wh_attempts t).
       requestError (fetch e (length (fetchCalls t) + i)) \<noteq> None) \<longrightarrow>
      fetchCalls (snd (wh_send e m t)) =
        fetchCalls t @ replicate (wh_attempts t) m \<and>
      fst (wh_send e m t) =
        requestError (fetch e (length (fetchCalls t) + (wh_attempts t - 1))) \<and>
      (\<exists>err. fst (wh_send e m t) = Some err \<and>
         observerCalls (calls (wh_common (snd (wh_send e m t)))) =
           observerCalls (calls (wh_common t)) @
             map (\<lambda>h. (h, Err err)) (errorHandlers (wh_common t)))) \<and>
   requestError AbortError = Some ''Request timeout'' \<and>
   (requestError (Response status statusText) = None \<longleftrightarrow> 200 \<le> status \<and> status \<le> 299)"
proof -
  have a: "state (wh_common t) \<noteq> Connected \<longrightarrow>
      wh_send e m t = (Some ''Transport not connected'', t)"
    by (simp add: wh_send_disconnected)
  have b: "state (wh_common t) = Connected \<longrightarrow>
      length (fetchCalls (snd (wh_send e m t))) \<le>
        length (fetchCalls t) + (wh_attempts t)"
    using wh_send_count [of t e m] by blast
  have c: "state (wh_common t) = Connected \<and> \<not> retry t \<longrightarrow>
      fetchCalls (snd (wh_send e m t)) = fetchCalls t @ [m]"
    using wh_send_no_retry [of t e m] by blast
  have d: "state (wh_common t) = Connected \<and>
    j < (wh_attempts t) \<and>
    (\<forall>i<j. requestError (fetch e (length (fetchCalls t) + i)) \<noteq> None) \<and>
    requestError (fetch e (length (fetchCalls t) + j)) = None \<longrightarrow>
      fst (wh_send e m t) = None \<and>
      fetchCalls (snd (wh_send e m t)) = fetchCalls t @ replicate (Suc j) m \<and>
      calls (wh_common (snd (wh_send e m t))) = calls (wh_common t)"
    using wh_send_success [of t j e m] by blast
  have f: "state (wh_common t) = Connected \<and>
    (\<forall>i < (wh_attempts t).
       requestError (fetch e (length (fetchCalls t) + i)) \<noteq> None) \<longrightarrow>
      fetchCalls (snd (wh_send e m t)) =
        fetchCalls t @ replicate (wh_attempts t) m \<and>
      fst (wh_send e m t) =
        requestError (fetch e (length (fetchCalls t) + (wh_attempts t - 1))) \<and>
      (\<exists>err. fst (wh_send e m t) = Some err \<and>
         observerCalls (calls (wh_common (snd (wh_send e m t)))) =
           observerCalls (calls (wh_common t)) @
             map (\<lambda>h. (h, Err err)) (errorHandlers (wh_common t)))"
    using wh_send_all_fail [of t e m] by blast
  have g: "wh_attempts t = (if retry t then 1 + maxRetries t else 1)"
    by (simp add: wh_attempts_def)
  from a b c d f g requestError_cases(1) requestError_cases(2) [of status statusText] show ?thesis
    by blast
qed

lemmas wh_all_defs =
  new_WebhookTransport_def newCommon_def wh_connect_def wh_disconnect_def wh_log_def
  wh_setState_def wh_emitError_def wh_inCommon_def setState_def emitError_def log_def
  onError_def setAdd_def wh_attempts_def

lemma u5_eval:
  "state (wh_common u5) = Connected" "wh_attempts u5 = 4" "fetchCalls u5 = []"
  "calls (wh_common u5) = []"
  "state (wh_common u5n) = Connected" "\<not> retry u5n" "wh_attempts u5n = 1" "fetchCalls u5n = []"
  "calls (wh_common u5n) = []" "errorHandlers (wh_common u5n) = [Fn 7]"
  "state (wh_common u5d) = Disconnected"
  by (simp_all add: u5_def u5n_def u5d_def wh_all_defs)

lemma env1_fetch:
  "requestError (fetch env1 k) = (if k < 2 then Some ''HTTP 500: Error'' else None)"
  by (simp add: env1_def requestError_def ok_def showNat.simps digit_def)

theorem C5_witness:
  "state (wh_common u5d) \<noteq> Connected \<and>
   wh_send env1 goodMessage u5d = (Some ''Transport not connected'', u5d) \<and>
   state (wh_common u5) = Connected \<and> wh_attempts u5 = 4 \<and>
   requestError (fetch env1 0) \<noteq> None \<and> requestError (fetch env1 1) \<noteq> None \<and>
   requestError (fetch env1 2) = None \<and>
   fst (wh_send env1 goodMessage u5) = None \<and>
   fetchCalls (snd (wh_send env1 goodMessage u5)) = [goodMessage, goodMessage, goodMessage] \<and>
   calls (wh_common (snd (wh_send env1 goodMessage u5))) = [] \<and>
   state (wh_common u5n) = Connected \<and> \<not> retry u5n \<and>
   fetchCalls (snd (wh_send env1 goodMessage u5n)) = [goodMessage] \<and>
   fst (wh_send env1 goodMessage u5n) = Some ''HTTP 500: Error'' \<and>
   observerCalls (calls (wh_common (snd (wh_send env1 goodMessage u5n)))) =
     [(Fn 7, Err ''HTTP 500: Error'')]"
proof -
  have a: "state (wh_common u5d) \<noteq> Connected"
    by (simp add: u5_eval)
  have b: "wh_send env1 goodMessage u5d = (Some ''Transport not connected'', u5d)"
    using C5_webhook_send [of u5d env1 goodMessage 0 200 "''OK''"] a by blast
  have p: "\<forall>i<2. requestError (fetch env1 (length (fetchCalls u5) + i)) \<noteq> None"
    by (simp add: u5_eval env1_fetch)
  have q: "requestError (fetch env1 (length (fetchCalls u5) + 2)) = None"
    by (simp add: u5_eval env1_fetch)
  have j: "(2::nat) < wh_attempts u5"
    by (simp add: u5_eval)
  have c: "fst (wh_send env1 goodMessage u5) = None \<and>
           fetchCalls (snd (wh_send env1 goodMessage u5)) = fetchCalls u5 @ replicate (Suc 2) goodMessage \<and>
           calls (wh_common (snd (wh_send env1 goodMessage u5))) = calls (wh_common u5)"
    using C5_webhook_send [of u5 env1 goodMessage 2 200 "''OK''"] p q j u5_eval(1) by blast
  have r: "\<forall>i < wh_attempts u5n. requestError (fetch env1 (length (fetchCalls u5n) + i)) \<noteq> None"
    by (simp add: u5_eval env1_fetch)
  have d: "fetchCalls (snd (wh_send env1 goodMessage u5n)) = fetchCalls u5n @ [goodMessage] \<and>
           fst (wh_send env1 goodMessage u5n) =
             requestError (fetch env1 (length (fetchCalls u5n) + (wh_attempts u5n - 1))) \<and>
           (\<exists>err. fst (wh_send env1 goodMessage u5n) = Some err \<and>
              observerCalls (calls (wh_common (snd (wh_send env1 goodMessage u5n)))) =
                observerCalls (calls (wh_common u5n)) @
                  map (\<lambda>h. (h, Err err)) (errorHandlers (wh_common u5n)))"
    using C5_webhook_send [of u5n env1 goodMessage 0 200 "''OK''"] r u5_eval(5) u5_eval(6) by blast
  have n: "observerCalls [] = []"
    by (simp add: observerCalls_def)
  from a b c d show ?thesis
    by (auto simp: u5_eval env1_fetch numeral_3_eq_3 n)
qed

section \<open>The message the client sends\<close>

lemma client_send_eq:
  "client_send e ev now1 sfx now2 t =
     ws_send e (client_message ev now1 sfx now2) (inCommon (client_log ''Sending message:'') t)"
  by (simp add: client_send_def Let_def)

text \<open>
  Claim C9. \<open>client.send(e)\<close> hands exactly one message to the transport's \<open>send\<close>: its
  type is \<open>event\<close>, its data is \<open>e\<close>, its id is \<open>msg_\<close>, the clock in decimal, \<open>_\<close> and the
  random suffix (so it is not empty), and its timestamp is the clock read when the
  message is built. On the socket transport that one message is queued when the
  transport is not connected and written to the socket when it is, once.
\<close>

theorem C9_client_send:
  "client_send e ev now1 sfx now2 t =
     ws_send e (client_message ev now1 sfx now2) (inCommon (client_log ''Sending message:'') t) \<and>
   om_type (client_message ev now1 sfx now2) = ''event'' \<and>
   om_data (client_message ev now1 sfx now2) = ev \<and>
   om_id (client_message ev now1 sfx now2) = Some (''msg_'' @ showNat now1 @ ''_'' @ sfx) \<and>
   ''msg_'' @ showNat now1 @ ''_'' @ sfx \<noteq> [] \<and>
   om_timestamp (client_message ev now1 sfx now2) = Some now2 \<and>
   (state (common t) \<noteq> Connected \<or> ws t = None \<longrightarrow>
      fst (client_send e ev now1 sfx now2 t) = None \<and>
      messageQueue (snd (client_send e ev now1 sfx now2 t)) =
        messageQueue t @ [client_message ev now1 sfx now2] \<and>
      wire (snd (client_send e ev now1 sfx now2 t)) = wire t) \<and>
   (state (common t) = Connected \<and> ws t \<noteq> None \<and>
    sendThrows e (client_message ev now1 sfx now2) = None \<longrightarrow>
      fst (client_send e ev now1 sfx now2 t) = None \<and>
      wire (snd (client_send e ev now1 sfx now2 t)) =
        wire t @ [client_message ev now1 sfx now2] \<and>
      messageQueue (snd (client_send e ev now1 sfx now2 t)) = messageQueue t) \<and>
   (state (common t) = Connected \<and> ws t \<noteq> None \<and>
    sendThrows e (client_message ev now1 sfx now2) = Some x \<longrightarrow>
      fst (client_send e ev now1 sfx now2 t) = Some (toError x ''Send failed'') \<and>
      wire (snd (client_send e ev now1 sfx now2 t)) = wire t \<and>
      messageQueue (snd (client_send e ev now1 sfx now2 t)) = messageQueue t)"
proof -
  let ?m = "client_message ev now1 sfx now2"
  let ?t = "inCommon (client_log ''Sending message:'') t"
  have a: "state (common t) \<noteq> Connected \<or> ws t = None \<longrightarrow>
      fst (client_send e ev now1 sfx now2 t) = None \<and>
      messageQueue (snd (client_send e ev now1 sfx now2 t)) = messageQueue t @ [?m] \<and>
      wire (snd (client_send e ev now1 sfx now2 t)) = wire t"
    using ws_send_queues [of ?t e ?m] by (simp add: client_send_eq)
  have b: "state (common t) = Connected \<and> ws t \<noteq> None \<and> sendThrows e ?m = None \<longrightarrow>
      fst (client_send e ev now1 sfx now2 t) = None \<and>
      wire (snd (client_send e ev now1 sfx now2 t)) = wire t @ [?m] \<and>
      messageQueue (snd (client_send e ev now1 sfx now2 t)) = messageQueue t"
    using ws_send_writes [of ?t e ?m] by (simp add: client_send_eq)
  have c: "state (common t) = Connected \<and> ws t \<noteq> None \<and> sendThrows e ?m = Some x \<longrightarrow>
      fst (client_send e ev now1 sfx now2 t) = Some (toError x ''Send failed'') \<and>
      wire (snd (client_send e ev now1 sfx now2 t)) = wire t \<and>
      messageQueue (snd (client_send e ev now1 sfx now2 t)) = messageQueue t"
    using ws_send_fails [of ?t e ?m x] by (simp add: client_send_eq)
  have d: "om_type ?m = ''event''" "om_data ?m = ev"
      "om_id ?m = Some (''msg_'' @ showNat now1 @ ''_'' @ sfx)"
      "om_timestamp ?m = Some now2"
    by (simp_all add: client_message_def generateId_def)
  from a b c d client_send_eq [of e ev now1 sfx now2 t] show ?thesis
    by simp
qed

lemma tc9_eval:
  "state (common tc) = Disconnected" "messageQueue tc = []" "wire tc = []"
  "state (common tc9) = Connected" "ws tc9 = Some 0" "wire tc9 = []" "messageQueue tc9 = []"
  by (simp_all add: tc_def tc9_def env1_def ws_all_defs)

lemma showNat_1730: "showNat 1730 = ''1730''"
  by (simp add: showNat.simps digit_def)

theorem C9_witness:
  "client_message purchase 1730 ''k3j9x2abc'' 1731 =
     \<lparr>om_type = ''event'', om_data = [(''event'', ''purchase''), (''order_id'', ''123'')],
      om_id = Some ''msg_1730_k3j9x2abc'', om_timestamp = Some 1731\<rparr> \<and>
   state (common tc) \<noteq> Connected \<and>
   messageQueue (snd (client_send env1 purchase 1730 ''k3j9x2abc'' 1731 tc)) =
     [client_message purchase 1730 ''k3j9x2abc'' 1731] \<and>
   wire (snd (client_send env1 purchase 1730 ''k3j9x2abc'' 1731 tc)) = [] \<and>
   state (common tc9) = Connected \<and> ws tc9 \<noteq> None \<and>
   sendThrows env1 (client_message purchase 1730 ''k3j9x2abc'' 1731) = None \<and>
   fst (client_send env1 purchase 1730 ''k3j9x2abc'' 1731 tc9) = None \<and>
   wire (snd (client_send env1 purchase 1730 ''k3j9x2abc'' 1731 tc9)) =
     [client_message purchase 1730 ''k3j9x2abc'' 1731] \<and>
   messageQueue (snd (client_send env1 purchase 1730 ''k3j9x2abc'' 1731 tc9)) = []"
proof -
  let ?m = "client_message purchase 1730 ''k3j9x2abc'' 1731"
  have m: "?m =
     \<lparr>om_type = ''event'', om_data = [(''event'', ''purchase''), (''order_id'', ''123'')],
      om_id = Some ''msg_1730_k3j9x2abc'', om_timestamp = Some 1731\<rparr>"
    by (simp add: client_message_def generateId_def showNat_1730 purchase_def)
  have s: "sendThrows env1 ?m = None"
    by (simp add: m env1_def)
  have d: "state (common tc) \<noteq> Connected \<or> ws tc = None"
    by (simp add: tc9_eval)
  have a: "messageQueue (snd (client_send env1 purchase 1730 ''k3j9x2abc'' 1731 tc)) =
             messageQueue tc @ [?m] \<and>
           wire (snd (client_send env1 purchase 1730 ''k3j9x2abc'' 1731 tc)) = wire tc"
    using C9_client_send [of env1 purchase 1730 "''k3j9x2abc''" 1731 tc "ErrorObject ''x''"] d
    by blast
  have c: "state (common tc9) = Connected \<and> ws tc9 \<noteq> None"
    by (simp add: tc9_eval)
  have b: "fst (client_send env1 purchase 1730 ''k3j9x2abc'' 1731 tc9) = None \<and>
           wire (snd (client_send env1 purchase 1730 ''k3j9x2abc'' 1731 tc9)) = wire tc9 @ [?m] \<and>
           messageQueue (snd (client_send env1 purchase 1730 ''k3j9x2abc'' 1731 tc9)) =
             messageQueue tc9"
    using C9_client_send [of env1 purchase 1730 "''k3j9x2abc''" 1731 tc9 "ErrorObject ''x''"] c s
    by blast
  have e: "messageQueue tc = []" "wire tc = []" "wire tc9 = []" "messageQueue tc9 = []"
      "state (common tc) \<noteq> Connected"
    by (simp_all add: tc9_eval)
  from m s a b c e show ?thesis
    by simp
qed

section \<open>Where the code departs from its documentation\<close>

text \<open>
  Claim C1 fails for the client's reserved event types. \<open>handleMessage\<close> wraps each
  handler call in \<open>try/catch\<close>; \<open>handleStateChange\<close> and \<open>handleError\<close> do not. With two
  handlers subscribed to \<open>_state_change\<close>, the first of which (function 1) throws, a state
  change calls the first only; the exception ends the loop, and the second handler
  (function 2) is never called. The same happens for \<open>_error\<close>. For an ordinary event
  type both handlers are called.
\<close>

theorem C1_reserved_event_handler_throws:
  "eventHandlers (common (run env1 [ClientOn ''_state_change'' 1, ClientOn ''_state_change'' 2] tc))
     ''_state_change'' = Some [Plain 1, Plain 2] \<and>
   calls (common (run env1 [ClientOn ''_state_change'' 1, ClientOn ''_state_change'' 2,
                            ClientConnect] tc)) =
     [(ClientHook, State Connecting), (Fn 1, StateEvent Connecting)] \<and>
   calls (common (run env1 [ClientOn ''_error'' 1, ClientOn ''_error'' 2,
                            ClientConnect, SocketError 0] tc)) =
     [(ClientHook, State Connecting), (ClientHook, Err ''WebSocket connection error''),
      (Fn 1, ErrorEvent ''WebSocket connection error'')] \<and>
   calls (common (run env1 [ClientOn ''test_event'' 1, ClientOn ''test_event'' 2,
                            SocketMessage 0 (Some (inbound ''1''))] tc9)) =
     calls (common tc9) @
     [(ClientHook, Message (inbound ''1'')), (Fn 1, Data [(''count'', ''1'')]),
      (Fn 2, Data [(''count'', ''1'')])]"
  by (simp add: tc_def tc9_def env1_def inbound_def ws_all_defs)

text \<open>
  Claim C2 fails for a handler that throws. The closure of \<open>once\<close> calls the handler and
  unsubscribes afterwards; when the handler throws, the exception skips the
  unsubscription, \<open>handleMessage\<close> catches it, and the closure stays subscribed. With
  function 1 (which throws) subscribed once and two messages of the type delivered, it
  is called twice, the second time with the second message's payload. Function 2, which
  returns, is called for the first message only.
\<close>

theorem C2_once_handler_that_throws:
  "calls (common (run env1 [ClientOnce ''test_event'' 1,
                            SocketMessage 0 (Some (inbound ''1'')),
                            SocketMessage 0 (Some (inbound ''2''))] tc9)) =
     calls (common tc9) @
     [(ClientHook, Message (inbound ''1'')), (Fn 1, Data [(''count'', ''1'')]),
      (ClientHook, Message (inbound ''2'')), (Fn 1, Data [(''count'', ''2'')])] \<and>
   calls (common (run env1 [ClientOnce ''test_event'' 2,
                            SocketMessage 0 (Some (inbound ''1'')),
                            SocketMessage 0 (Some (inbound ''2''))] tc9)) =
     calls (common tc9) @
     [(ClientHook, Message (inbound ''1'')), (Fn 2, Data [(''count'', ''1'')]),
      (ClientHook, Message (inbound ''2''))]"
  by (simp add: tc_def tc9_def env1_def inbound_def ws_all_defs)

text \<open>
  Claim C3 fails once a reconnect attempt fails. The socket of the failed attempt raises
  \<open>error\<close>, whose rejection reaches the \<open>catch\<close> of \<open>scheduleReconnect\<close>, and then \<open>close\<close>;
  both call \<open>handleDisconnect\<close>, so two timers are started for the one failure (both
  after 2000 ms here), and each of them adds one to \<open>reconnectAttempts\<close> when it fires,
  though only the first opens a socket: the second finds the state \<open>connecting\<close>. The
  counter runs ahead of the attempts. After two reconnect attempts (three sockets in
  all) it is 3, and the timers for the third attempt are set to \<open>1000 * 2 ^ 3\<close> ms where
  the claim has \<open>1000 * 2 ^ 2\<close>; with a limit of 3 attempts the transport gives up, state
  \<open>disconnected\<close> and no timer pending, after those two.
\<close>

theorem C3_counter_runs_ahead_of_attempts:
  "length (conns t3w) = 2 \<and> reconnectAttempts t3w = 1 \<and>
   timers t3w = [(4, ReconnectTimer, 2000), (5, ReconnectTimer, 2000)] \<and>
   length (conns t3x) = 3 \<and> reconnectAttempts t3x = 3 \<and>
   state (common t3x) = Reconnecting \<and>
   timers t3x = [(7, ReconnectTimer, 8000), (8, ReconnectTimer, 8000)] \<and>
   autoReconnect t3y \<and> maxReconnectAttempts t3y = 3 \<and> length (conns t3y) = 3 \<and>
   state (common t3y) = Disconnected \<and> timers t3y = []"
  by (simp add: t3w_def t3x_def t3y_def firstFailure_def secondFailure_def env1_def ws_all_defs)

text \<open>
  What \<open>disconnect()\<close> does, in every state: it leaves the state \<open>disconnected\<close>,
  auto-reconnect off and no socket; the timer whose handle \<open>reconnectTimeout\<close> held is no
  longer pending, and \<open>close()\<close> was called on the socket there was.
\<close>

lemma ws_disconnect_effect:
  "state (common (ws_disconnect e t)) = Disconnected"
  "\<not> autoReconnect (ws_disconnect e t)"
  "reconnectTimeout (ws_disconnect e t) = None"
  "ws (ws_disconnect e t) = None"
  "reconnectTimeout t = Some h \<Longrightarrow> h \<notin> fst ` set (timers (ws_disconnect e t))"
  "reconnectTimeout t = Some h \<Longrightarrow>
     timers (ws_disconnect e t) = filter (\<lambda>x. fst x \<noteq> h) (timers t)"
  "reconnectTimeout t = None \<Longrightarrow> timers (ws_disconnect e t) = timers t"
  "ws t = Some k \<Longrightarrow> closed (ws_disconnect e t) = closed t @ [k]"
  by (auto simp: ws_disconnect_def Let_def closeSocket_def split: option.splits)

text \<open>
  Claim C7 fails when more than one reconnect timer is pending. A reconnect attempt that
  fails raises the socket's \<open>error\<close> event, whose rejection reaches the \<open>catch\<close> of
  \<open>scheduleReconnect\<close>, and then its \<open>close\<close> event; both call \<open>handleDisconnect\<close>, and
  each call starts a timer, while \<open>reconnectTimeout\<close> keeps the handle of the second
  only. \<open>disconnect()\<close> cancels that one. The first timer (handle 4) is still pending
  after \<open>disconnect()\<close>; when it fires, its callback calls \<open>connect()\<close> without looking at
  \<open>autoReconnect\<close>, and a third socket is opened.
\<close>

theorem C7_reconnect_after_disconnect:
  "state (common t7) = Disconnected \<and> \<not> autoReconnect t7 \<and> reconnectTimeout t7 = None \<and>
   ws t7 = None \<and> length (conns t7) = 2 \<and>
   timers t7 = [(4, ReconnectTimer, 2000)] \<and>
   state (common (fireTimer env1 4 t7)) = Connecting \<and>
   ws (fireTimer env1 4 t7) = Some 2 \<and>
   length (conns (fireTimer env1 4 t7)) = 3 \<and>
   reconnectAttempts (fireTimer env1 4 t7) = 2"
  by (simp add: t7_def env1_def ws_all_defs)

section \<open>After the client has disconnected\<close>

lemma clientCalls_append [simp]: "clientCalls (xs @ ys) = clientCalls xs @ clientCalls ys"
  by (simp add: clientCalls_def)

lemma clientCalls_Fn [simp]: "\<not> eventArg a \<Longrightarrow> clientCalls [(Fn n, a)] = []"
  by (simp add: clientCalls_def)

lemma detached_common [simp]:
  "detached (log p m c) = detached c"
  "detached (client_log m c) = detached c"
  "detached (unsubscribe ty h c) = detached c"
  "detached (notify e p l a hs c) = detached c"
  "detached (setState e p st c) = detached c"
  "detached (emitError e p err c) = detached c"
  by (simp_all add: detached_def)

lemma client_on_frame [simp]:
  "state (client_on ty h c) = state c" "debug (client_on ty h c) = debug c"
  "messageHandlers (client_on ty h c) = messageHandlers c"
  "stateHandlers (client_on ty h c) = stateHandlers c"
  "errorHandlers (client_on ty h c) = errorHandlers c"
  "calls (client_on ty h c) = calls c"
  by (simp_all add: client_on_def Let_def)

lemma client_once_frame [simp]:
  "state (snd (client_once ty n c)) = state c" "debug (snd (client_once ty n c)) = debug c"
  "messageHandlers (snd (client_once ty n c)) = messageHandlers c"
  "stateHandlers (snd (client_once ty n c)) = stateHandlers c"
  "errorHandlers (snd (client_once ty n c)) = errorHandlers c"
  "calls (snd (client_once ty n c)) = calls c"
  by (simp_all add: client_once_def Let_def)

lemma client_off_frame [simp]:
  "state (client_off ty c) = state c" "debug (client_off ty c) = debug c"
  "messageHandlers (client_off ty c) = messageHandlers c"
  "stateHandlers (client_off ty c) = stateHandlers c"
  "errorHandlers (client_off ty c) = errorHandlers c"
  "calls (client_off ty c) = calls c"
  by (simp_all add: client_off_def)

lemma detached_client [simp]:
  "detached (client_on ty h c) = detached c"
  "detached (snd (client_once ty n c)) = detached c"
  "detached (client_off ty c) = detached c"
  by (simp_all add: detached_def)

lemma detached_registry [simp]:
  "detached (onMessage (Fn n) c) = detached c"
  "detached (onStateChange (Fn n) c) = detached c"
  "detached (onError (Fn n) c) = detached c"
  "detached (offMessage (Fn n) c) = detached c"
  "detached (offStateChange (Fn n) c) = detached c"
  "detached (offError (Fn n) c) = detached c"
  by (auto simp: detached_def onMessage_def onStateChange_def onError_def offMessage_def
        offStateChange_def offError_def setAdd_def setDelete_def)

lemma calls_registry [simp]:
  "calls (onMessage h c) = calls c" "calls (onStateChange h c) = calls c"
  "calls (onError h c) = calls c" "calls (offMessage h c) = calls c"
  "calls (offStateChange h c) = calls c" "calls (offError h c) = calls c"
  by (simp_all add: onMessage_def onStateChange_def onError_def offMessage_def
        offStateChange_def offError_def)

text \<open>With the client's methods out of a registry, notifying that registry reaches no handler of the client.\<close>

lemma clientCalls_notify:
  "ClientHook \<notin> set hs \<Longrightarrow> \<not> eventArg a \<Longrightarrow>
   clientCalls (calls (notify e p l a hs c)) = clientCalls (calls c)"
proof (induction hs arbitrary: c)
  case Nil
  show ?case by simp
next
  case (Cons h hs)
  obtain n where h: "h = Fn n"
    using Cons.prems(1) by (cases h) auto
  have r: "callObserver e a h c = (throws e n a (calls c), c\<lparr>calls := calls c @ [(Fn n, a)]\<rparr>)"
    by (simp add: h callObserver_def)
  have t: "ClientHook \<notin> set hs"
    using Cons.prems(1) by simp
  show ?case
    using Cons.IH [OF t Cons.prems(2)] Cons.prems(2) by (simp add: r)
qed

lemma clientCalls_setState [simp]:
  "detached c \<Longrightarrow> clientCalls (calls (setState e p st c)) = clientCalls (calls c)"
  by (simp add: setState_def clientCalls_notify detached_def)

lemma clientCalls_emitError [simp]:
  "detached c \<Longrightarrow> clientCalls (calls (emitError e p err c)) = clientCalls (calls c)"
  by (simp add: emitError_def clientCalls_notify detached_def)

lemma clientCalls_notifyMessage [simp]:
  "detached c \<Longrightarrow>
   clientCalls (calls (notify e p l (Message m) (messageHandlers c) c)) = clientCalls (calls c)"
  by (simp add: clientCalls_notify detached_def)

text \<open>The same for each method and callback of the socket transport.\<close>

lemma ws_send_detached [simp]:
  "detached (common (snd (ws_send e m t))) = detached (common t)"
  by (simp add: detached_def)

lemma ws_send_clientCalls [simp]:
  "detached (common t) \<Longrightarrow>
   clientCalls (calls (common (snd (ws_send e m t)))) = clientCalls (calls (common t))"
  by (simp add: ws_send_def Let_def split: option.splits)

lemma flushSends_detached [simp]:
  "detached (common (snd (flushSends e ms t))) = detached (common t)"
  by (simp add: detached_def)

lemma flushSends_clientCalls [simp]:
  "detached (common t) \<Longrightarrow>
   clientCalls (calls (common (snd (flushSends e ms t)))) = clientCalls (calls (common t))"
  by (induction ms arbitrary: t) (simp_all add: case_prod_beta)

lemma ws_flushMessageQueue_detached [simp]:
  "detached (common (ws_flushMessageQueue e t)) = detached (common t)"
  by (simp add: detached_def)

lemma ws_flushMessageQueue_clientCalls [simp]:
  "detached (common t) \<Longrightarrow>
   clientCalls (calls (common (ws_flushMessageQueue e t))) = clientCalls (calls (common t))"
  by (simp add: ws_flushMessageQueue_def Let_def case_prod_beta)

lemma ws_handleDisconnect_quiet [simp]:
  "detached (common (ws_handleDisconnect e t)) = detached (common t)"
  "detached (common t) \<Longrightarrow>
   clientCalls (calls (common (ws_handleDisconnect e t))) = clientCalls (calls (common t))"
  by (simp_all add: ws_handleDisconnect_def Let_def)

lemma onRejected_quiet [simp]:
  "detached (common (onRejected e via t)) = detached (common t)"
  "detached (common t) \<Longrightarrow>
   clientCalls (calls (common (onRejected e via t))) = clientCalls (calls (common t))"
  by (simp_all add: onRejected_def)

lemma ws_connect_quiet [simp]:
  "detached (common (ws_connect e via t)) = detached (common t)"
  "detached (common t) \<Longrightarrow>
   clientCalls (calls (common (ws_connect e via t))) = clientCalls (calls (common t))"
  by (simp_all add: ws_connect_def Let_def case_prod_beta split: option.splits)

lemma ws_disconnect_quiet [simp]:
  "detached (common (ws_disconnect e t)) = detached (common t)"
  "detached (common t) \<Longrightarrow>
   clientCalls (calls (common (ws_disconnect e t))) = clientCalls (calls (common t))"
  by (simp_all add: ws_disconnect_def Let_def split: option.splits)

lemma ws_handleMessage_quiet [simp]:
  "detached (common (ws_handleMessage e data t)) = detached (common t)"
  "detached (common t) \<Longrightarrow>
   clientCalls (calls (common (ws_handleMessage e data t))) = clientCalls (calls (common t))"
  by (simp_all add: ws_handleMessage_def clientCalls_notify detached_def split: option.splits)

lemma ws_onopen_quiet [simp]:
  "detached (common (ws_onopen e k t)) = detached (common t)"
  "detached (common t) \<Longrightarrow>
   clientCalls (calls (common (ws_onopen e k t))) = clientCalls (calls (common t))"
  by (simp_all add: ws_onopen_def Let_def)

lemma ws_onerror_quiet [simp]:
  "detached (common (ws_onerror e k t)) = detached (common t)"
  "detached (common t) \<Longrightarrow>
   clientCalls (calls (common (ws_onerror e k t))) = clientCalls (calls (common t))"
  by (simp_all add: ws_onerror_def Let_def case_prod_beta)

lemma ws_onclose_quiet [simp]:
  "detached (common (ws_onclose e k t)) = detached (common t)"
  "detached (common t) \<Longrightarrow>
   clientCalls (calls (common (ws_onclose e k t))) = clientCalls (calls (common t))"
  by (simp_all add: ws_onclose_def)

lemma ws_onmessage_quiet [simp]:
  "detached (common (ws_onmessage e k data t)) = detached (common t)"
  "detached (common t) \<Longrightarrow>
   clientCalls (calls (common (ws_onmessage e k data t))) = clientCalls (calls (common t))"
  by (simp_all add: ws_onmessage_def)

lemma fireTimer_quiet [simp]:
  "detached (common (fireTimer e h t)) = detached (common t)"
  "detached (common t) \<Longrightarrow>
   clientCalls (calls (common (fireTimer e h t))) = clientCalls (calls (common t))"
  by (simp_all add: fireTimer_def Let_def case_prod_beta split: option.splits timer.splits)

lemma client_cleanup_detached [simp]: "detached (common (client_cleanup t))"
  by (simp add: client_cleanup_def Let_def detached_def offMessage_def offStateChange_def
        offError_def setDelete_def)

lemma client_cleanup_frame [simp]:
  "calls (common (client_cleanup t)) = calls (common t)"
  "eventHandlers (common (client_cleanup t)) = Map.empty"
  by (simp_all add: client_cleanup_def Let_def offMessage_def offStateChange_def offError_def)

lemma client_send_quiet [simp]:
  "detached (common (snd (client_send e ev now1 sfx now2 t))) = detached (common t)"
  "detached (common t) \<Longrightarrow>
   clientCalls (calls (common (snd (client_send e ev now1 sfx now2 t)))) =
     clientCalls (calls (common t))"
  by (simp_all add: client_send_def Let_def)

lemma step_detached: "detached (common t) \<Longrightarrow> detached (common (step e a t))"
  by (cases a) (simp_all add: client_connect_def client_disconnect_def)

lemma step_clientCalls:
  "detached (common t) \<Longrightarrow>
   clientCalls (calls (common (step e a t))) = clientCalls (calls (common t))"
  by (cases a) (simp_all add: client_connect_def client_disconnect_def)

lemma run_quiet:
  "detached (common t) \<Longrightarrow>
   detached (common (run e as t)) \<and>
   clientCalls (calls (common (run e as t))) = clientCalls (calls (common t))"
proof (induction as arbitrary: t)
  case Nil
  then show ?case by simp
next
  case (Cons a as)
  have d: "detached (common (step e a t))"
    using Cons.prems by (rule step_detached)
  show ?case
    using Cons.IH [OF d] step_clientCalls [OF Cons.prems, of e a] by simp
qed

text \<open>
  The webhook transport reaches its observers through the same \<open>setState\<close> and
  \<open>emitError\<close>: once the client's methods are out of its registries, they stay out, and
  \<open>connect\<close>, \<open>disconnect\<close> and \<open>send\<close> reach nothing of the client.
\<close>

lemma wh_quiet:
  "detached (wh_common (wh_connect e u)) = detached (wh_common u)"
  "detached (wh_common (wh_disconnect e u)) = detached (wh_common u)"
  "detached (wh_common (snd (wh_send e m u))) = detached (wh_common u)"
  "detached (wh_common u) \<Longrightarrow>
   clientCalls (calls (wh_common (wh_connect e u))) = clientCalls (calls (wh_common u))"
  "detached (wh_common u) \<Longrightarrow>
   clientCalls (calls (wh_common (wh_disconnect e u))) = clientCalls (calls (wh_common u))"
  "detached (wh_common u) \<Longrightarrow>
   clientCalls (calls (wh_common (snd (wh_send e m u)))) = clientCalls (calls (wh_common u))"
proof -
  show "detached (wh_common (wh_connect e u)) = detached (wh_common u)"
    by (simp add: wh_connect_def wh_setState_def)
  show "detached (wh_common (wh_disconnect e u)) = detached (wh_common u)"
    by (simp add: wh_disconnect_def wh_setState_def)
  show s: "detached (wh_common (snd (wh_send e m u))) = detached (wh_common u)"
  proof (cases "state (wh_common u) = Connected")
    case True
    then show ?thesis
      by (simp add: wh_send_result Let_def detached_def split: option.splits)
  next
    case False
    then show ?thesis by (simp add: wh_send_def)
  qed
  show "detached (wh_common u) \<Longrightarrow>
      clientCalls (calls (wh_common (wh_connect e u))) = clientCalls (calls (wh_common u))"
    by (simp add: wh_connect_def wh_setState_def)
  show "detached (wh_common u) \<Longrightarrow>
      clientCalls (calls (wh_common (wh_disconnect e u))) = clientCalls (calls (wh_common u))"
    by (simp add: wh_disconnect_def wh_setState_def)
  show "detached (wh_common u) \<Longrightarrow>
      clientCalls (calls (wh_common (snd (wh_send e m u)))) = clientCalls (calls (wh_common u))"
  proof (cases "state (wh_common u) = Connected")
    case True
    assume d: "detached (wh_common u)"
    let ?r = "wh_sendLoop e m (wh_attempts u) 0 None u"
    have "detached (wh_common (snd (snd ?r)))"
      using d by (simp add: detached_def)
    then show ?thesis
      using True by (simp add: wh_send_result Let_def split: option.splits)
  next
    case False
    then show ?thesis by (simp add: wh_send_def)
  qed
qed

text \<open>
  Claim C10. \<open>disconnect()\<close> of the client leaves the handler map empty and the client's
  three methods out of the transport's registries. From then on, whatever happens:
  calls of any method of the client or of the transport, of any closure they returned,
  socket events, timers firing, in any number and order, the client's methods stay out
  of the registries and nothing reaches the client: none of its methods and none of the
  handlers given to \<open>on\<close> or \<open>once\<close> is called again, whether subscribed before or after.
\<close>

theorem C10_client_detached_for_good:
  "eventHandlers (common (client_disconnect e t)) = Map.empty \<and>
   detached (common (client_disconnect e t)) \<and>
   detached (common (run e as (client_disconnect e t))) \<and>
   clientCalls (calls (common (run e as (client_disconnect e t)))) =
     clientCalls (calls (common (client_disconnect e t)))"
proof -
  have d: "detached (common (client_disconnect e t))"
    by (simp add: client_disconnect_def)
  have m: "eventHandlers (common (client_disconnect e t)) = Map.empty"
    by (simp add: client_disconnect_def)
  from d m run_quiet [OF d, of e as] show ?thesis by simp
qed

lemma tc10_eval:
  "calls (common (client_disconnect env1 tc10)) =
     [(ClientHook, State Connecting), (ClientHook, State Connected),
      (ClientHook, State Disconnected), (Fn 2, StateEvent Disconnected)]"
  "state (common (run env1 after10 (client_disconnect env1 tc10))) = Connected"
  "calls (common (run env1 after10 (client_disconnect env1 tc10))) =
     [(ClientHook, State Connecting), (ClientHook, State Connected),
      (ClientHook, State Disconnected), (Fn 2, StateEvent Disconnected),
      (Fn 3, State Connecting), (Fn 3, State Connected)]"
  "eventHandlers (common (run env1 after10 (client_disconnect env1 tc10))) ''test_event'' =
     Some [Plain 2]"
  by (simp_all add: after10_def tc10_def tc9_def tc_def env1_def inbound_def ws_all_defs)

theorem C10_witness:
  "state (common (run env1 after10 (client_disconnect env1 tc10))) = Connected \<and>
   eventHandlers (common (run env1 after10 (client_disconnect env1 tc10))) ''test_event'' =
     Some [Plain 2] \<and>
   clientCalls (calls (common (client_disconnect env1 tc10))) =
     [(ClientHook, State Connecting), (ClientHook, State Connected),
      (ClientHook, State Disconnected), (Fn 2, StateEvent Disconnected)] \<and>
   clientCalls (calls (common (run env1 after10 (client_disconnect env1 tc10)))) =
     [(ClientHook, State Connecting), (ClientHook, State Connected),
      (ClientHook, State Disconnected), (Fn 2, StateEvent Disconnected)]"
proof -
  have a: "clientCalls (calls (common (client_disconnect env1 tc10))) =
     [(ClientHook, State Connecting), (ClientHook, State Connected),
      (ClientHook, State Disconnected), (Fn 2, StateEvent Disconnected)]"
    by (simp add: tc10_eval(1) clientCalls_def)
  have b: "clientCalls (calls (common (run env1 after10 (client_disconnect env1 tc10)))) =
           clientCalls (calls (common (client_disconnect env1 tc10)))"
    using C10_client_detached_for_good [of env1 tc10 after10] by blast
  from a b tc10_eval(2) tc10_eval(4) show ?thesis by simp
qed

end
